theory Spec2Isabelle
  imports Main "HOL-Library.Sublist"
begin

section \<open>The type model queried by the expression checker\<close>

text \<open>
  The module \<^verbatim>\<open>expressions.py\<close> imports its types from \<^verbatim>\<open>types.py\<close>, which is not part
  of the sources at hand. The checker only ever queries a type: it reads its \<^verbatim>\<open>name\<close>,
  asks \<^verbatim>\<open>is_subtype_of\<close>, looks a method up with \<^verbatim>\<open>method_named\<close> and reads its
  \<^verbatim>\<open>constructor\<close>. These queries are therefore parameters of the embedding: a
  \<open>type_model\<close> over an arbitrary carrier \<open>'t\<close> of types. Every theorem about the checker
  holds for every type model.
\<close>

text \<open>A method signature, as the checker reads it: \<^verbatim>\<open>method.parameter_types\<close> and
  \<^verbatim>\<open>method.return_type\<close>.\<close>

record 't JavaMethod =
  parameter_types :: "'t list"
  return_type :: "'t"

text \<open>A constructor signature: the checker reads \<^verbatim>\<open>constructor.parameter_types\<close> only.\<close>

record 't JavaConstructor =
  constructor_parameter_types :: "'t list"

text \<open>
  Modelled from the spec: the operations of the absent \<^verbatim>\<open>types.py\<close>.
  \<^item> \<open>type_name t\<close> is \<^verbatim>\<open>t.name\<close>;
  \<^item> \<open>is_subtype_of c t\<close> is \<^verbatim>\<open>c.is_subtype_of(t)\<close>, a boolean;
  \<^item> \<open>method_named t n\<close> is \<^verbatim>\<open>t.method_named(n)\<close>; \<open>None\<close> stands for the lookup failure
    \<^verbatim>\<open>NoSuchJavaMethod\<close> (``absence is a lookup failure, not a null result'');
  \<^item> \<open>constructor t\<close> is the attribute \<^verbatim>\<open>t.constructor\<close>; \<open>None\<close> stands for a type that has
    none (``types that are not instantiable have none''), where reading the attribute
    fails;
  \<^item> \<open>OBJECT\<close> and \<open>NULL\<close> are \<^verbatim>\<open>JavaBuiltInTypes.OBJECT\<close> and \<^verbatim>\<open>JavaBuiltInTypes.NULL\<close>.
\<close>

record 't type_model =
  type_name :: "'t \<Rightarrow> string"
  is_subtype_of :: "'t \<Rightarrow> 't \<Rightarrow> bool"
  method_named :: "'t \<Rightarrow> string \<Rightarrow> 't JavaMethod option"
  constructor :: "'t \<Rightarrow> 't JavaConstructor option"
  OBJECT :: "'t"
  NULL :: "'t"

section \<open>Expressions\<close>

text \<open>
  \<^verbatim>\<open>JavaVariable\<close>: a name and the declared type. The class documents the left side of an
  assignment as a \<^verbatim>\<open>JavaVariable\<close>, so the variable is a type of its own and
  \<open>Variable\<close> injects it into the expressions.
\<close>

datatype 't JavaVariable = JavaVariable (name: string) (declared_type: "'t")

datatype 't JavaExpression =
    Variable "'t JavaVariable"
  | JavaLiteral string "'t"
  | JavaNullLiteral
  | JavaAssignment "'t JavaVariable" "'t JavaExpression"
  | JavaMethodCall "'t JavaExpression" string "'t JavaExpression list"
  | JavaConstructorCall "'t" "'t JavaExpression list"

text \<open>
  The errors a check can end with. The four kinds of \<^verbatim>\<open>JavaTypeError\<close> carry the message
  the source formats (the message of \<^verbatim>\<open>NoSuchJavaMethod\<close> is made in \<^verbatim>\<open>types.py\<close>);
  \<open>AttributeError\<close> and \<open>IndexError\<close> are the failures of Python itself that the code
  can run into: reading \<^verbatim>\<open>.constructor\<close> of a type that has none, and indexing a tuple
  out of range.
\<close>

datatype error =
    NoSuchJavaMethod
  | JavaTypeMismatchError string
  | JavaArgumentCountError string
  | JavaIllegalInstantiationError string
  | AttributeError
  | IndexError

text \<open>The kind of an error, without its message.\<close>

datatype error_kind =
    NoSuchMethod | TypeMismatch | ArgumentCountMismatch | IllegalInstantiation | PythonError

fun kind :: "error \<Rightarrow> error_kind" where
  "kind NoSuchJavaMethod = NoSuchMethod"
| "kind (JavaTypeMismatchError m) = TypeMismatch"
| "kind (JavaArgumentCountError m) = ArgumentCountMismatch"
| "kind (JavaIllegalInstantiationError m) = IllegalInstantiation"
| "kind AttributeError = PythonError"
| "kind IndexError = PythonError"

text \<open>Whether a result raises an error of the given kind.\<close>

fun raises :: "error + 'a \<Rightarrow> error_kind \<Rightarrow> bool" where
  "raises (Inl e) k = (kind e = k)"
| "raises (Inr v) k = False"

text \<open>
  Whether an error is a \<^verbatim>\<open>JavaTypeError\<close>. The three error classes of \<^verbatim>\<open>expressions.py\<close>
  derive from it. Modelled from the spec: \<^verbatim>\<open>NoSuchJavaMethod\<close> is declared in the absent
  \<^verbatim>\<open>types.py\<close>; the spec lists it as the fourth kind of the common type error category.
\<close>

fun is_JavaTypeError :: "error \<Rightarrow> bool" where
  "is_JavaTypeError NoSuchJavaMethod = True"
| "is_JavaTypeError (JavaTypeMismatchError m) = True"
| "is_JavaTypeError (JavaArgumentCountError m) = True"
| "is_JavaTypeError (JavaIllegalInstantiationError m) = True"
| "is_JavaTypeError AttributeError = False"
| "is_JavaTypeError IndexError = False"

subsection \<open>Formatting of messages\<close>

text \<open>\<^verbatim>\<open>str.format\<close> of a length: the decimal digits of a natural number.\<close>

fun digit :: "nat \<Rightarrow> char" where
  "digit n = ''0123456789'' ! n"

fun str_nat :: "nat \<Rightarrow> string" where
  "str_nat n = (if n < 10 then [digit n] else str_nat (n div 10) @ [digit (n mod 10)])"

text \<open>\<^verbatim>\<open>sep.join(xs)\<close>.\<close>

fun join :: "string \<Rightarrow> string list \<Rightarrow> string" where
  "join sep [] = []"
| "join sep [x] = x"
| "join sep (x # y # ys) = x @ sep @ join sep (y # ys)"

subsection \<open>\<^verbatim>\<open>static_type\<close>\<close>

text \<open>
  \<^verbatim>\<open>static_type\<close> of each class. The method call is the one that can raise: the lookup
  \<^verbatim>\<open>method_named\<close> on the receiver's static type fails with \<^verbatim>\<open>NoSuchJavaMethod\<close>.
\<close>

definition JavaVariable_static_type :: "'t JavaVariable \<Rightarrow> error + 't" where
  "JavaVariable_static_type v = Inr (declared_type v)"

fun static_type :: "'t type_model \<Rightarrow> 't JavaExpression \<Rightarrow> error + 't" where
  "static_type tm (Variable v) = JavaVariable_static_type v"
| "static_type tm (JavaLiteral val ty) = Inr ty"
| "static_type tm JavaNullLiteral = Inr (NULL tm)"
| "static_type tm (JavaAssignment lhs rhs) = JavaVariable_static_type lhs"
| "static_type tm (JavaMethodCall receiver method_name args) =
     (case static_type tm receiver of
        Inl e \<Rightarrow> Inl e
      | Inr rt \<Rightarrow>
          (case method_named tm rt method_name of
             None \<Rightarrow> Inl NoSuchJavaMethod
           | Some method \<Rightarrow> Inr (return_type method)))"
| "static_type tm (JavaConstructorCall instantiated_type args) = Inr instantiated_type"

subsection \<open>The helpers \<^verbatim>\<open>check_argument_match\<close> and \<^verbatim>\<open>_names\<close>\<close>

text \<open>
  The loop of \<^verbatim>\<open>check_argument_match\<close> from index \<open>i\<close> on: \<open>expected\<close> is what is left of
  \<^verbatim>\<open>expected_type_list\<close> from position \<open>i\<close>. \<^verbatim>\<open>given_expr_list[i]\<close> raises
  \<^verbatim>\<open>IndexError\<close> when \<open>i\<close> is not below the length of the tuple; the first argument
  whose type is no subtype of the expected one makes the result \<^verbatim>\<open>False\<close>.
\<close>

fun check_argument_match_from ::
  "'t type_model \<Rightarrow> nat \<Rightarrow> 't JavaExpression list \<Rightarrow> 't list \<Rightarrow> error + bool" where
  "check_argument_match_from tm i given_expr_list [] = Inr True"
| "check_argument_match_from tm i given_expr_list (expected_type # expected) =
     (if i < length given_expr_list then
        (case static_type tm (given_expr_list ! i) of
           Inl e \<Rightarrow> Inl e
         | Inr given_type \<Rightarrow>
             if \<not> is_subtype_of tm given_type expected_type then Inr False
             else check_argument_match_from tm (Suc i) given_expr_list expected)
      else Inl IndexError)"

definition check_argument_match ::
  "'t type_model \<Rightarrow> 't JavaExpression list \<Rightarrow> 't list \<Rightarrow> error + bool" where
  "check_argument_match tm given_expr_list expected_type_list =
     check_argument_match_from tm 0 given_expr_list expected_type_list"

text \<open>The list comprehension of \<^verbatim>\<open>_names\<close> over expressions: the name of the static type
  of each, in order; the first \<^verbatim>\<open>static_type\<close> that raises ends it.\<close>

fun static_type_names :: "'t type_model \<Rightarrow> 't JavaExpression list \<Rightarrow> error + string list" where
  "static_type_names tm [] = Inr []"
| "static_type_names tm (e # es) =
     (case static_type tm e of
        Inl err \<Rightarrow> Inl err
      | Inr t \<Rightarrow>
          (case static_type_names tm es of
             Inl err \<Rightarrow> Inl err
           | Inr ns \<Rightarrow> Inr (type_name tm t # ns)))"

text \<open>\<^verbatim>\<open>_names\<close> of a list of expressions and of a list of types.\<close>

definition names_of_exprs :: "'t type_model \<Rightarrow> 't JavaExpression list \<Rightarrow> error + string" where
  "names_of_exprs tm es =
     (case static_type_names tm es of
        Inl err \<Rightarrow> Inl err
      | Inr ns \<Rightarrow> Inr (''('' @ join '', '' ns @ '')''))"

definition names_of_types :: "'t type_model \<Rightarrow> 't list \<Rightarrow> string" where
  "names_of_types tm ts = ''('' @ join '', '' (map (type_name tm) ts) @ '')''"

subsection \<open>\<^verbatim>\<open>check_types\<close>\<close>

text \<open>The loop \<^verbatim>\<open>for arg in self.args: arg.check_types()\<close>, given the check of one
  expression: the first check that raises ends the loop.\<close>

fun check_each :: "('e \<Rightarrow> error + unit) \<Rightarrow> 'e list \<Rightarrow> error + unit" where
  "check_each chk [] = Inr ()"
| "check_each chk (arg # args) =
     (case chk arg of
        Inl e \<Rightarrow> Inl e
      | Inr u \<Rightarrow> check_each chk args)"

lemma check_each_cong [fundef_cong]:
  "args = args' \<Longrightarrow> (\<And>arg. arg \<in> set args' \<Longrightarrow> chk arg = chk' arg)
     \<Longrightarrow> check_each chk args = check_each chk' args'"
  by (induction args arbitrary: args') (auto split: sum.splits)

text \<open>
  \<^verbatim>\<open>check_types\<close> of each class, statement by statement; a \<^verbatim>\<open>raise\<close>, and an exception
  coming out of a call, is the result \<open>Inl\<close>, and returning nothing is \<open>Inr ()\<close>.
  Each composite class first calls \<^verbatim>\<open>check_types\<close> on its sub-expressions; the
  statements that follow these calls are the checks of the node itself, one function per
  class. Where the source evaluates \<^verbatim>\<open>self.receiver.static_type()\<close> again for a message,
  the value is the one already bound: \<^verbatim>\<open>static_type\<close> has no effect.
\<close>

definition JavaVariable_check_types :: "'t JavaVariable \<Rightarrow> error + unit" where
  "JavaVariable_check_types v = Inr ()"

text \<open>\<^verbatim>\<open>JavaAssignment.check_types\<close> from \<^verbatim>\<open>lhs_type = self.lhs.static_type()\<close> on.\<close>

fun JavaAssignment_checks ::
  "'t type_model \<Rightarrow> 't JavaVariable \<Rightarrow> 't JavaExpression \<Rightarrow> error + unit" where
  "JavaAssignment_checks tm lhs rhs =
     (case JavaVariable_static_type lhs of
        Inl e \<Rightarrow> Inl e
      | Inr lhs_type \<Rightarrow>
     (case static_type tm rhs of
        Inl e \<Rightarrow> Inl e
      | Inr rhs_type \<Rightarrow>
          if \<not> is_subtype_of tm rhs_type lhs_type then
            Inl (JavaTypeMismatchError
              (''Cannot assign '' @ type_name tm rhs_type @ '' to variable '' @ name lhs
                 @ '' of type '' @ type_name tm lhs_type))
          else Inr ()))"

text \<open>\<^verbatim>\<open>JavaMethodCall.check_types\<close> from the lookup of the method on.\<close>

fun JavaMethodCall_checks ::
  "'t type_model \<Rightarrow> 't JavaExpression \<Rightarrow> string \<Rightarrow> 't JavaExpression list \<Rightarrow> error + unit" where
  "JavaMethodCall_checks tm receiver method_name args =
     (case static_type tm receiver of
        Inl e \<Rightarrow> Inl e
      | Inr receiver_type \<Rightarrow>
     (case method_named tm receiver_type method_name of
        None \<Rightarrow> Inl NoSuchJavaMethod
      | Some method \<Rightarrow>
          if length (parameter_types method) \<noteq> length args then
            Inl (JavaArgumentCountError
              (''Wrong number of arguments for '' @ type_name tm receiver_type @ ''.''
                 @ method_name @ ''(): expected '' @ str_nat (length (parameter_types method))
                 @ '', got '' @ str_nat (length args)))
          else
            (case check_argument_match tm args (parameter_types method) of
               Inl e \<Rightarrow> Inl e
             | Inr matches \<Rightarrow>
                 if \<not> matches then
                   (case names_of_exprs tm args of
                      Inl e \<Rightarrow> Inl e
                    | Inr given_names \<Rightarrow>
                        Inl (JavaTypeMismatchError
                          (type_name tm receiver_type @ ''.'' @ method_name
                             @ ''() expects arguments of type ''
                             @ names_of_types tm (parameter_types method)
                             @ '', but got '' @ given_names)))
                 else Inr ())))"

text \<open>\<^verbatim>\<open>JavaConstructorCall.check_types\<close> from the test of instantiability on.\<close>

fun JavaConstructorCall_checks ::
  "'t type_model \<Rightarrow> 't \<Rightarrow> 't JavaExpression list \<Rightarrow> error + unit" where
  "JavaConstructorCall_checks tm instantiated_type args =
     (if \<not> is_subtype_of tm instantiated_type (OBJECT tm) then
        Inl (JavaIllegalInstantiationError
          (''Type '' @ type_name tm instantiated_type @ '' is not instantiable''))
      else
        (case constructor tm instantiated_type of
           None \<Rightarrow> Inl AttributeError
         | Some c \<Rightarrow>
             if length (constructor_parameter_types c) \<noteq> length args then
               Inl (JavaArgumentCountError
                 (''Wrong number of arguments for '' @ type_name tm instantiated_type
                    @ '' constructor: expected ''
                    @ str_nat (length (constructor_parameter_types c))
                    @ '', got '' @ str_nat (length args)))
             else
               (case check_argument_match tm args (constructor_parameter_types c) of
                  Inl e \<Rightarrow> Inl e
                | Inr matches \<Rightarrow>
                    if \<not> matches then
                      (case names_of_exprs tm args of
                         Inl e \<Rightarrow> Inl e
                       | Inr given_names \<Rightarrow>
                           Inl (JavaTypeMismatchError
                             (type_name tm instantiated_type
                                @ '' constructor expects arguments of type ''
                                @ names_of_types tm (constructor_parameter_types c)
                                @ '', but got '' @ given_names)))
                    else Inr ())))"

fun check_types :: "'t type_model \<Rightarrow> 't JavaExpression \<Rightarrow> error + unit" where
  "check_types tm (Variable v) = JavaVariable_check_types v"
| "check_types tm (JavaLiteral val ty) = Inr ()"
| "check_types tm JavaNullLiteral = Inr ()"
| "check_types tm (JavaAssignment lhs rhs) =
     (case JavaVariable_check_types lhs of
        Inl e \<Rightarrow> Inl e
      | Inr u \<Rightarrow>
     (case check_types tm rhs of
        Inl e \<Rightarrow> Inl e
      | Inr u \<Rightarrow> JavaAssignment_checks tm lhs rhs))"
| "check_types tm (JavaMethodCall receiver method_name args) =
     (case check_types tm receiver of
        Inl e \<Rightarrow> Inl e
      | Inr u \<Rightarrow>
     (case check_each (check_types tm) args of
        Inl e \<Rightarrow> Inl e
      | Inr u \<Rightarrow> JavaMethodCall_checks tm receiver method_name args))"
| "check_types tm (JavaConstructorCall instantiated_type args) =
     (case check_each (check_types tm) args of
        Inl e \<Rightarrow> Inl e
      | Inr u \<Rightarrow> JavaConstructorCall_checks tm instantiated_type args)"

section \<open>The order of the checks\<close>

text \<open>
  The outcome of \<^verbatim>\<open>check_types\<close> does not tell how often a sub-expression was checked, nor
  when. \<open>check_types_log\<close> is \<^verbatim>\<open>check_types\<close> run with a log: it returns, with the
  outcome, the steps taken in the order they were taken. A node is named by its position
  in the tree under the root: the indices, from the root down, of the sub-expression taken
  at each node (for an assignment \<^verbatim>\<open>lhs\<close> is 0 and \<^verbatim>\<open>rhs\<close> is 1; for a method call the
  receiver is 0 and the arguments follow from 1; the arguments of a constructor call start
  at 0).
\<close>

type_synonym position = "nat list"

text \<open>
  A step is an invocation of \<^verbatim>\<open>check_types\<close> on the node at a position, or one of the
  checks a node makes itself: a subtype comparison (of an assignment, or the test of
  instantiability), the lookup of the signature (\<^verbatim>\<open>method_named\<close>, or reading
  \<^verbatim>\<open>constructor\<close>), the comparison of the argument count, and the call of
  \<^verbatim>\<open>check_argument_match\<close>, with the lengths of the two lists it is given: of
  \<^verbatim>\<open>given_expr_list\<close> first, of \<^verbatim>\<open>expected_type_list\<close> second.
\<close>

datatype step =
    Invoked position
  | SubtypeComparison position
  | SignatureLookup position
  | ArgumentCount position
  | ArgumentTypes position nat nat

text \<open>The node a step belongs to, and whether the step is an invocation of
  \<^verbatim>\<open>check_types\<close>.\<close>

fun performer :: "step \<Rightarrow> position" where
  "performer (Invoked p) = p"
| "performer (SubtypeComparison p) = p"
| "performer (SignatureLookup p) = p"
| "performer (ArgumentCount p) = p"
| "performer (ArgumentTypes p given expected) = p"

fun is_invocation :: "step \<Rightarrow> bool" where
  "is_invocation (Invoked p) = True"
| "is_invocation s = False"

text \<open>The checks each class makes itself, in the order of its statements, up to the
  one that raises: the steps of \<open>JavaAssignment_checks\<close>, \<open>JavaMethodCall_checks\<close> and
  \<open>JavaConstructorCall_checks\<close>.\<close>

fun JavaAssignment_steps ::
  "'t type_model \<Rightarrow> position \<Rightarrow> 't JavaVariable \<Rightarrow> 't JavaExpression \<Rightarrow> step list" where
  "JavaAssignment_steps tm p lhs rhs =
     (case JavaVariable_static_type lhs of
        Inl e \<Rightarrow> []
      | Inr lhs_type \<Rightarrow>
     (case static_type tm rhs of
        Inl e \<Rightarrow> []
      | Inr rhs_type \<Rightarrow> [SubtypeComparison p]))"

fun JavaMethodCall_steps ::
  "'t type_model \<Rightarrow> position \<Rightarrow> 't JavaExpression \<Rightarrow> string \<Rightarrow> 't JavaExpression list
     \<Rightarrow> step list" where
  "JavaMethodCall_steps tm p receiver method_name args =
     (case static_type tm receiver of
        Inl e \<Rightarrow> []
      | Inr receiver_type \<Rightarrow>
          SignatureLookup p #
          (case method_named tm receiver_type method_name of
             None \<Rightarrow> []
           | Some method \<Rightarrow>
               ArgumentCount p #
               (if length (parameter_types method) \<noteq> length args then []
                else [ArgumentTypes p (length args) (length (parameter_types method))])))"

fun JavaConstructorCall_steps ::
  "'t type_model \<Rightarrow> position \<Rightarrow> 't \<Rightarrow> 't JavaExpression list \<Rightarrow> step list" where
  "JavaConstructorCall_steps tm p instantiated_type args =
     SubtypeComparison p #
     (if \<not> is_subtype_of tm instantiated_type (OBJECT tm) then []
      else
        SignatureLookup p #
        (case constructor tm instantiated_type of
           None \<Rightarrow> []
         | Some c \<Rightarrow>
             ArgumentCount p #
             (if length (constructor_parameter_types c) \<noteq> length args then []
              else [ArgumentTypes p (length args) (length (constructor_parameter_types c))])))"

text \<open>The loop over the arguments, with the index of each among the sub-expressions.\<close>

fun check_each_log ::
  "(nat \<Rightarrow> 'e \<Rightarrow> step list \<times> (error + unit)) \<Rightarrow> nat \<Rightarrow> 'e list
     \<Rightarrow> step list \<times> (error + unit)" where
  "check_each_log chk i [] = ([], Inr ())"
| "check_each_log chk i (arg # args) =
     (case chk i arg of
        (steps, Inl e) \<Rightarrow> (steps, Inl e)
      | (steps, Inr u) \<Rightarrow>
          (case check_each_log chk (Suc i) args of
             (rest, r) \<Rightarrow> (steps @ rest, r)))"

lemma check_each_log_cong [fundef_cong]:
  "args = args' \<Longrightarrow> i = i' \<Longrightarrow> (\<And>j arg. arg \<in> set args' \<Longrightarrow> chk j arg = chk' j arg)
     \<Longrightarrow> check_each_log chk i args = check_each_log chk' i' args'"
  by (induction args arbitrary: args' i i') (auto split: sum.splits prod.splits)

definition JavaVariable_check_types_log ::
  "position \<Rightarrow> 't JavaVariable \<Rightarrow> step list \<times> (error + unit)" where
  "JavaVariable_check_types_log p v = ([Invoked p], JavaVariable_check_types v)"

fun check_types_log ::
  "'t type_model \<Rightarrow> position \<Rightarrow> 't JavaExpression \<Rightarrow> step list \<times> (error + unit)" where
  "check_types_log tm p (Variable v) = JavaVariable_check_types_log p v"
| "check_types_log tm p (JavaLiteral val ty) = ([Invoked p], Inr ())"
| "check_types_log tm p JavaNullLiteral = ([Invoked p], Inr ())"
| "check_types_log tm p (JavaAssignment lhs rhs) =
     (case JavaVariable_check_types_log (p @ [0]) lhs of
        (steps, Inl e) \<Rightarrow> (Invoked p # steps, Inl e)
      | (steps, Inr u) \<Rightarrow>
     (case check_types_log tm (p @ [1]) rhs of
        (rest, Inl e) \<Rightarrow> (Invoked p # steps @ rest, Inl e)
      | (rest, Inr u) \<Rightarrow>
          (Invoked p # steps @ rest @ JavaAssignment_steps tm p lhs rhs,
           JavaAssignment_checks tm lhs rhs)))"
| "check_types_log tm p (JavaMethodCall receiver method_name args) =
     (case check_types_log tm (p @ [0]) receiver of
        (steps, Inl e) \<Rightarrow> (Invoked p # steps, Inl e)
      | (steps, Inr u) \<Rightarrow>
     (case check_each_log (\<lambda>i. check_types_log tm (p @ [i])) 1 args of
        (rest, Inl e) \<Rightarrow> (Invoked p # steps @ rest, Inl e)
      | (rest, Inr u) \<Rightarrow>
          (Invoked p # steps @ rest @ JavaMethodCall_steps tm p receiver method_name args,
           JavaMethodCall_checks tm receiver method_name args)))"
| "check_types_log tm p (JavaConstructorCall instantiated_type args) =
     (case check_each_log (\<lambda>i. check_types_log tm (p @ [i])) 0 args of
        (steps, Inl e) \<Rightarrow> (Invoked p # steps, Inl e)
      | (steps, Inr u) \<Rightarrow>
          (Invoked p # steps @ JavaConstructorCall_steps tm p instantiated_type args,
           JavaConstructorCall_checks tm instantiated_type args))"

text \<open>The sub-expressions of a node, in the order in which its \<^verbatim>\<open>check_types\<close> calls
  them, and the steps of its own checks.\<close>

fun children :: "'t JavaExpression \<Rightarrow> 't JavaExpression list" where
  "children (JavaAssignment lhs rhs) = [Variable lhs, rhs]"
| "children (JavaMethodCall receiver method_name args) = receiver # args"
| "children (JavaConstructorCall instantiated_type args) = args"
| "children e = []"


fun own_steps :: "'t type_model \<Rightarrow> position \<Rightarrow> 't JavaExpression \<Rightarrow> step list" where
  "own_steps tm p (JavaAssignment lhs rhs) = JavaAssignment_steps tm p lhs rhs"
| "own_steps tm p (JavaMethodCall receiver method_name args) =
     JavaMethodCall_steps tm p receiver method_name args"
| "own_steps tm p (JavaConstructorCall instantiated_type args) =
     JavaConstructorCall_steps tm p instantiated_type args"
| "own_steps tm p e = []"


text \<open>The logs of the checks of the first \<open>n\<close> sub-expressions of a node, one after the
  other.\<close>

definition sub_logs :: "'t type_model \<Rightarrow> position \<Rightarrow> 't JavaExpression \<Rightarrow> nat \<Rightarrow> step list" where
  "sub_logs tm p e n =
     concat (map (\<lambda>i. fst (check_types_log tm (p @ [i]) (children e ! i))) [0..<n])"

section \<open>An example type model\<close>

text \<open>
  Modelled from the spec: a class table in the shape the spec describes, to run the checker
  on. It holds the primitive types \<^verbatim>\<open>int\<close>, \<^verbatim>\<open>boolean\<close> and \<^verbatim>\<open>void\<close>, the null type, the
  object root, and the object types of the spec's scenarios: \<^verbatim>\<open>String\<close>; \<^verbatim>\<open>Animal\<close>
  (superclass the object root, method \<^verbatim>\<open>speak() -> String\<close>, constructor with no
  parameters); \<^verbatim>\<open>Dog\<close> (superclass \<^verbatim>\<open>Animal\<close>); and \<^verbatim>\<open>Foo\<close> with the methods
  \<^verbatim>\<open>bar(int, int) -> void\<close> and \<^verbatim>\<open>pet(Animal, int) -> Animal\<close> and a constructor taking
  an \<^verbatim>\<open>Animal\<close>.
\<close>

datatype example_type =
    IntType | BooleanType | VoidType | NullType | ObjectType
  | StringType | AnimalType | DogType | FooType

fun example_name :: "example_type \<Rightarrow> string" where
  "example_name IntType = ''int''"
| "example_name BooleanType = ''boolean''"
| "example_name VoidType = ''void''"
| "example_name NullType = ''null''"
| "example_name ObjectType = ''Object''"
| "example_name StringType = ''String''"
| "example_name AnimalType = ''Animal''"
| "example_name DogType = ''Dog''"
| "example_name FooType = ''Foo''"

fun example_superclass :: "example_type \<Rightarrow> example_type option" where
  "example_superclass StringType = Some ObjectType"
| "example_superclass AnimalType = Some ObjectType"
| "example_superclass DogType = Some AnimalType"
| "example_superclass FooType = Some ObjectType"
| "example_superclass t = None"

fun example_is_reference :: "example_type \<Rightarrow> bool" where
  "example_is_reference IntType = False"
| "example_is_reference BooleanType = False"
| "example_is_reference VoidType = False"
| "example_is_reference NullType = False"
| "example_is_reference t = True"

text \<open>The superclass chain of a type, the type itself first; the table has nine types, so
  nine steps exhaust every chain.\<close>

fun example_chain :: "nat \<Rightarrow> example_type \<Rightarrow> example_type list" where
  "example_chain 0 t = [t]"
| "example_chain (Suc n) t =
     (case example_superclass t of None \<Rightarrow> [t] | Some s \<Rightarrow> t # example_chain n s)"

text \<open>The spec's algorithm: the same type is a subtype; the null type is a subtype of the
  reference types only; otherwise the target is looked for on the superclass chain.\<close>

definition example_is_subtype_of :: "example_type \<Rightarrow> example_type \<Rightarrow> bool" where
  "example_is_subtype_of candidate target =
     (if candidate = target then True
      else if candidate = NullType then example_is_reference target
      else target \<in> set (example_chain 9 candidate))"

fun example_methods :: "example_type \<Rightarrow> (string \<times> example_type JavaMethod) list" where
  "example_methods AnimalType = [(''speak'', \<lparr>parameter_types = [], return_type = StringType\<rparr>)]"
| "example_methods FooType =
     [(''bar'', \<lparr>parameter_types = [IntType, IntType], return_type = VoidType\<rparr>),
      (''pet'', \<lparr>parameter_types = [AnimalType, IntType], return_type = AnimalType\<rparr>)]"
| "example_methods t = []"

text \<open>Lookup by name: the type itself, then its ancestors in order, the first match.\<close>

fun first_method :: "string \<Rightarrow> example_type list \<Rightarrow> example_type JavaMethod option" where
  "first_method n [] = None"
| "first_method n (t # ts) =
     (case map_of (example_methods t) n of None \<Rightarrow> first_method n ts | Some m \<Rightarrow> Some m)"

definition example_method_named :: "example_type \<Rightarrow> string \<Rightarrow> example_type JavaMethod option" where
  "example_method_named t n = first_method n (example_chain 9 t)"

fun example_constructor :: "example_type \<Rightarrow> example_type JavaConstructor option" where
  "example_constructor ObjectType = Some \<lparr>constructor_parameter_types = []\<rparr>"
| "example_constructor StringType = Some \<lparr>constructor_parameter_types = []\<rparr>"
| "example_constructor AnimalType = Some \<lparr>constructor_parameter_types = []\<rparr>"
| "example_constructor DogType = Some \<lparr>constructor_parameter_types = []\<rparr>"
| "example_constructor FooType = Some \<lparr>constructor_parameter_types = [AnimalType]\<rparr>"
| "example_constructor t = None"

definition example_types :: "example_type type_model" where
  "example_types = \<lparr>type_name = example_name, is_subtype_of = example_is_subtype_of,
     method_named = example_method_named, constructor = example_constructor,
     OBJECT = ObjectType, NULL = NullType\<rparr>"

text \<open>The expressions of the examples: the variable \<^verbatim>\<open>foo\<close> of type \<^verbatim>\<open>Foo\<close>, and literals.\<close>

definition foo :: "example_type JavaExpression" where
  "foo = Variable (JavaVariable ''foo'' FooType)"

definition one :: "example_type JavaExpression" where
  "one = JavaLiteral ''1'' IntType"

definition true :: "example_type JavaExpression" where
  "true = JavaLiteral ''true'' BooleanType"

text \<open>The variables \<^verbatim>\<open>a\<close> of type \<^verbatim>\<open>Animal\<close> and \<^verbatim>\<open>d\<close> of type \<^verbatim>\<open>Dog\<close>, and the
  expressions \<^verbatim>\<open>new Animal()\<close> and \<^verbatim>\<open>new Dog()\<close>.\<close>

definition animal_variable :: "example_type JavaVariable" where
  "animal_variable = JavaVariable ''a'' AnimalType"

definition dog_variable :: "example_type JavaVariable" where
  "dog_variable = JavaVariable ''d'' DogType"

definition new_animal :: "example_type JavaExpression" where
  "new_animal = JavaConstructorCall AnimalType []"

definition new_dog :: "example_type JavaExpression" where
  "new_dog = JavaConstructorCall DogType []"

section \<open>Properties of the checker\<close>

subsection \<open>Auxiliary facts\<close>

lemmas example_simps =
  example_types_def example_method_named_def example_is_subtype_of_def
  check_argument_match_def JavaVariable_check_types_def JavaVariable_static_type_def
  names_of_exprs_def names_of_types_def foo_def one_def true_def eval_nat_numeral
  animal_variable_def dog_variable_def new_animal_def new_dog_def

text \<open>The loop over the arguments returns iff every argument checks.\<close>

lemma check_each_ok: "check_each chk args = Inr () \<longleftrightarrow> (\<forall>a\<in>set args. chk a = Inr ())"
  by (induction args) (auto split: sum.splits)

lemma check_types_ok_static_type:
  "check_types tm e = Inr () \<Longrightarrow> \<exists>t. static_type tm e = Inr t"
  by (cases e) (auto simp: JavaVariable_static_type_def split: sum.splits option.splits if_splits)

lemma check_argument_match_from_typed:
  assumes "\<forall>a\<in>set given. \<exists>t. static_type tm a = Inr t"
    and "i + length expected = length given"
  shows "check_argument_match_from tm i given expected =
     Inr (\<not> (\<exists>k<length expected. \<exists>t. static_type tm (given ! (i + k)) = Inr t
            \<and> \<not> is_subtype_of tm t (expected ! k)))"
  using assms
proof (induction expected arbitrary: i)
  case Nil
  then show ?case by simp
next
  case (Cons p ps)
  from Cons.prems have lt: "i < length given" by simp
  then obtain t where t: "static_type tm (given ! i) = Inr t"
    using Cons.prems(1) nth_mem by blast
  show ?case
  proof (cases "is_subtype_of tm t p")
    case False
    then have "\<exists>k<length (p # ps). \<exists>t. static_type tm (given ! (i + k)) = Inr t
            \<and> \<not> is_subtype_of tm t ((p # ps) ! k)"
      using t by (intro exI[of _ 0]) simp
    then show ?thesis using lt t False by simp
  next
    case True
    have IH: "check_argument_match_from tm (Suc i) given ps =
     Inr (\<not> (\<exists>k<length ps. \<exists>t. static_type tm (given ! (Suc i + k)) = Inr t
            \<and> \<not> is_subtype_of tm t (ps ! k)))"
      using Cons.IH[of "Suc i"] Cons.prems by simp
    have "(\<exists>k<length (p # ps). \<exists>t. static_type tm (given ! (i + k)) = Inr t
            \<and> \<not> is_subtype_of tm t ((p # ps) ! k))
       \<longleftrightarrow> (\<exists>k<length ps. \<exists>t. static_type tm (given ! (Suc i + k)) = Inr t
            \<and> \<not> is_subtype_of tm t (ps ! k))" (is "?L \<longleftrightarrow> ?R")
    proof
      assume ?L
      then obtain k u where k: "k < length (p # ps)" "static_type tm (given ! (i + k)) = Inr u"
        "\<not> is_subtype_of tm u ((p # ps) ! k)" by blast
      with t True obtain j where "k = Suc j" by (cases k) auto
      with k show ?R by auto
    next
      assume ?R
      then obtain k u where k: "k < length ps" "static_type tm (given ! (Suc i + k)) = Inr u"
        "\<not> is_subtype_of tm u (ps ! k)" by blast
      then show ?L by (intro exI[of _ "Suc k"]) auto
    qed
    then show ?thesis using lt t True IH by simp
  qed
qed

lemma check_argument_match_typed:
  assumes "\<forall>a\<in>set args. check_types tm a = Inr ()"
    and "length args = length params"
  shows "check_argument_match tm args params =
     Inr (\<not> (\<exists>i<length args. \<exists>t. static_type tm (args ! i) = Inr t
            \<and> \<not> is_subtype_of tm t (params ! i)))"
  using check_argument_match_from_typed[of args tm 0 params] assms
  by (simp add: check_argument_match_def check_types_ok_static_type)

lemma static_type_names_typed:
  "\<forall>a\<in>set args. check_types tm a = Inr () \<Longrightarrow> \<exists>ns. static_type_names tm args = Inr ns"
proof (induction args)
  case Nil
  then show ?case by simp
next
  case (Cons a args)
  then obtain t ns where "static_type tm a = Inr t" "static_type_names tm args = Inr ns"
    using check_types_ok_static_type[of tm a] by auto
  then show ?case by simp
qed

lemma names_of_exprs_typed:
  "\<forall>a\<in>set args. check_types tm a = Inr () \<Longrightarrow> \<exists>s. names_of_exprs tm args = Inr s"
  using static_type_names_typed[of args tm] by (auto simp: names_of_exprs_def)


subsection \<open>Argument count before argument types\<close>

text \<open>
  C1. A method call whose receiver and arguments check and whose method resolves, and a
  constructor call whose arguments check and whose target is instantiable and has a
  constructor, raise \<^verbatim>\<open>JavaArgumentCountError\<close>, and not \<^verbatim>\<open>JavaTypeMismatchError\<close>, as soon as
  the number of arguments differs from the number of parameter types, whatever the types
  of the arguments are.
\<close>

theorem argument_count_precedes_argument_types:
  "(check_types tm receiver = Inr () \<and> (\<forall>a\<in>set args. check_types tm a = Inr ())
      \<and> static_type tm receiver = Inr receiver_type
      \<and> method_named tm receiver_type method_name = Some method
      \<and> length args \<noteq> length (parameter_types method)
    \<longrightarrow> raises (check_types tm (JavaMethodCall receiver method_name args)) ArgumentCountMismatch
      \<and> \<not> raises (check_types tm (JavaMethodCall receiver method_name args)) TypeMismatch)
   \<and> ((\<forall>a\<in>set args. check_types tm a = Inr ())
      \<and> is_subtype_of tm instantiated_type (OBJECT tm)
      \<and> constructor tm instantiated_type = Some c
      \<and> length args \<noteq> length (constructor_parameter_types c)
    \<longrightarrow> raises (check_types tm (JavaConstructorCall instantiated_type args)) ArgumentCountMismatch
      \<and> \<not> raises (check_types tm (JavaConstructorCall instantiated_type args)) TypeMismatch)"
proof (intro conjI impI)
  assume h: "check_types tm receiver = Inr () \<and> (\<forall>a\<in>set args. check_types tm a = Inr ())
      \<and> static_type tm receiver = Inr receiver_type
      \<and> method_named tm receiver_type method_name = Some method
      \<and> length args \<noteq> length (parameter_types method)"
  then have "check_each (check_types tm) args = Inr ()"
    by (simp add: check_each_ok)
  with h obtain msg where r: "check_types tm (JavaMethodCall receiver method_name args)
      = Inl (JavaArgumentCountError msg)"
    by auto
  show "raises (check_types tm (JavaMethodCall receiver method_name args)) ArgumentCountMismatch"
    and "\<not> raises (check_types tm (JavaMethodCall receiver method_name args)) TypeMismatch"
    unfolding r by simp_all
next
  assume h: "(\<forall>a\<in>set args. check_types tm a = Inr ())
      \<and> is_subtype_of tm instantiated_type (OBJECT tm)
      \<and> constructor tm instantiated_type = Some c
      \<and> length args \<noteq> length (constructor_parameter_types c)"
  then have "check_each (check_types tm) args = Inr ()"
    by (simp add: check_each_ok)
  with h obtain msg where r: "check_types tm (JavaConstructorCall instantiated_type args)
      = Inl (JavaArgumentCountError msg)"
    by auto
  show "raises (check_types tm (JavaConstructorCall instantiated_type args)) ArgumentCountMismatch"
    and "\<not> raises (check_types tm (JavaConstructorCall instantiated_type args)) TypeMismatch"
    unfolding r by simp_all
qed

text \<open>\<^verbatim>\<open>foo.bar(1, 1, 1)\<close>, where \<^verbatim>\<open>bar\<close> expects \<^verbatim>\<open>(int, int)\<close>, and \<^verbatim>\<open>new Foo(1, 1, 1)\<close>,
  where the constructor expects \<^verbatim>\<open>(Animal)\<close>.\<close>

theorem argument_count_precedes_argument_types_witness:
  "check_types example_types foo = Inr () \<and> check_types example_types one = Inr ()
   \<and> static_type example_types foo = Inr FooType
   \<and> method_named example_types FooType ''bar''
       = Some \<lparr>parameter_types = [IntType, IntType], return_type = VoidType\<rparr>
   \<and> length [one, one, one] \<noteq> length [IntType, IntType]
   \<and> raises (check_types example_types (JavaMethodCall foo ''bar'' [one, one, one]))
       ArgumentCountMismatch
   \<and> \<not> raises (check_types example_types (JavaMethodCall foo ''bar'' [one, one, one]))
       TypeMismatch
   \<and> is_subtype_of example_types FooType (OBJECT example_types)
   \<and> constructor example_types FooType = Some \<lparr>constructor_parameter_types = [AnimalType]\<rparr>
   \<and> raises (check_types example_types (JavaConstructorCall FooType [one, one, one]))
       ArgumentCountMismatch
   \<and> \<not> raises (check_types example_types (JavaConstructorCall FooType [one, one, one]))
       TypeMismatch"
  using argument_count_precedes_argument_types [of example_types foo "[one, one, one]" FooType
    "''bar''" "\<lparr>parameter_types = [IntType, IntType], return_type = VoidType\<rparr>" FooType
    "\<lparr>constructor_parameter_types = [AnimalType]\<rparr>"]
  by (simp add: example_simps)

subsection \<open>Assignment\<close>

text \<open>
  C2. For an assignment whose right side checks (the left side is a variable, whose check
  never raises), the right side has a static type, \<^verbatim>\<open>check_types\<close> raises
  \<^verbatim>\<open>JavaTypeMismatchError\<close> iff that type is not a subtype of the declared type of the
  variable, and returns iff it is one.
\<close>

theorem assignment_type_mismatch_iff:
  assumes "check_types tm rhs = Inr ()"
  shows "\<exists>rhs_type. static_type tm rhs = Inr rhs_type
     \<and> (raises (check_types tm (JavaAssignment lhs rhs)) TypeMismatch
          \<longleftrightarrow> \<not> is_subtype_of tm rhs_type (declared_type lhs))
     \<and> (check_types tm (JavaAssignment lhs rhs) = Inr ()
          \<longleftrightarrow> is_subtype_of tm rhs_type (declared_type lhs))"
proof -
  from assms obtain rhs_type where t: "static_type tm rhs = Inr rhs_type"
    using check_types_ok_static_type by blast
  show ?thesis
  proof (cases "is_subtype_of tm rhs_type (declared_type lhs)")
    case True
    with assms t have "check_types tm (JavaAssignment lhs rhs) = Inr ()"
      by (simp add: JavaVariable_check_types_def JavaVariable_static_type_def)
    with t True show ?thesis by simp
  next
    case False
    with assms t obtain msg where
      "check_types tm (JavaAssignment lhs rhs) = Inl (JavaTypeMismatchError msg)"
      by (simp add: JavaVariable_check_types_def JavaVariable_static_type_def)
    with t False show ?thesis by simp
  qed
qed

text \<open>\<^verbatim>\<open>a = new Dog()\<close> for \<^verbatim>\<open>Animal a\<close> checks; \<^verbatim>\<open>d = new Animal()\<close> for \<^verbatim>\<open>Dog d\<close>
  raises the mismatch.\<close>

theorem assignment_type_mismatch_iff_witness:
  "check_types example_types new_dog = Inr ()
   \<and> static_type example_types new_dog = Inr DogType
   \<and> is_subtype_of example_types DogType (declared_type animal_variable)
   \<and> check_types example_types (JavaAssignment animal_variable new_dog) = Inr ()
   \<and> check_types example_types new_animal = Inr ()
   \<and> static_type example_types new_animal = Inr AnimalType
   \<and> \<not> is_subtype_of example_types AnimalType (declared_type dog_variable)
   \<and> raises (check_types example_types (JavaAssignment dog_variable new_animal)) TypeMismatch"
  using assignment_type_mismatch_iff [of example_types new_dog animal_variable]
    assignment_type_mismatch_iff [of example_types new_animal dog_variable]
  by (simp add: example_simps)


subsection \<open>Argument types\<close>

text \<open>When every argument checks and the counts agree, the comparison of the argument
  types and the formatting of the message have one of two outcomes.\<close>

lemma argument_types_outcome:
  assumes "\<forall>a\<in>set args. check_types tm a = Inr ()" and "length args = length params"
  shows "(case check_argument_match tm args params of
            Inl e \<Rightarrow> Inl e
          | Inr matches \<Rightarrow>
              if \<not> matches then
                (case names_of_exprs tm args of
                   Inl e \<Rightarrow> Inl e
                 | Inr given_names \<Rightarrow> Inl (JavaTypeMismatchError (f given_names)))
              else Inr ())
     = (if (\<exists>i<length args. \<exists>t. static_type tm (args ! i) = Inr t
              \<and> \<not> is_subtype_of tm t (params ! i))
        then Inl (JavaTypeMismatchError (f (projr (names_of_exprs tm args))))
        else Inr ())"
proof -
  obtain s where "names_of_exprs tm args = Inr s"
    using names_of_exprs_typed[OF assms(1)] by blast
  then show ?thesis
    by (simp add: check_argument_match_typed[OF assms])
qed


text \<open>
  C3. For a method call and a constructor call that got as far as a resolved signature with
  as many parameter types as there are arguments, \<^verbatim>\<open>check_types\<close> raises
  \<^verbatim>\<open>JavaTypeMismatchError\<close> iff at some position the static type of the argument is not a
  subtype of the parameter type at the same position; it then raises one error, whose
  message holds the names of all the parameter types and of the types of all the
  arguments; otherwise it returns.
\<close>

theorem argument_type_mismatch_iff:
  "(check_types tm receiver = Inr () \<and> (\<forall>a\<in>set args. check_types tm a = Inr ())
      \<and> static_type tm receiver = Inr receiver_type
      \<and> method_named tm receiver_type method_name = Some method
      \<and> length args = length (parameter_types method)
    \<longrightarrow> (\<exists>given_names. names_of_exprs tm args = Inr given_names
         \<and> (raises (check_types tm (JavaMethodCall receiver method_name args)) TypeMismatch
              \<longleftrightarrow> (\<exists>i<length args. \<exists>t. static_type tm (args ! i) = Inr t
                     \<and> \<not> is_subtype_of tm t (parameter_types method ! i)))
         \<and> check_types tm (JavaMethodCall receiver method_name args) =
             (if \<exists>i<length args. \<exists>t. static_type tm (args ! i) = Inr t
                   \<and> \<not> is_subtype_of tm t (parameter_types method ! i)
              then Inl (JavaTypeMismatchError
                     (type_name tm receiver_type @ ''.'' @ method_name
                        @ ''() expects arguments of type ''
                        @ names_of_types tm (parameter_types method)
                        @ '', but got '' @ given_names))
              else Inr ())))
   \<and> ((\<forall>a\<in>set args. check_types tm a = Inr ())
      \<and> is_subtype_of tm instantiated_type (OBJECT tm)
      \<and> constructor tm instantiated_type = Some c
      \<and> length args = length (constructor_parameter_types c)
    \<longrightarrow> (\<exists>given_names. names_of_exprs tm args = Inr given_names
         \<and> (raises (check_types tm (JavaConstructorCall instantiated_type args)) TypeMismatch
              \<longleftrightarrow> (\<exists>i<length args. \<exists>t. static_type tm (args ! i) = Inr t
                     \<and> \<not> is_subtype_of tm t (constructor_parameter_types c ! i)))
         \<and> check_types tm (JavaConstructorCall instantiated_type args) =
             (if \<exists>i<length args. \<exists>t. static_type tm (args ! i) = Inr t
                   \<and> \<not> is_subtype_of tm t (constructor_parameter_types c ! i)
              then Inl (JavaTypeMismatchError
                     (type_name tm instantiated_type
                        @ '' constructor expects arguments of type ''
                        @ names_of_types tm (constructor_parameter_types c)
                        @ '', but got '' @ given_names))
              else Inr ())))"
proof (intro conjI impI)
  assume h: "check_types tm receiver = Inr () \<and> (\<forall>a\<in>set args. check_types tm a = Inr ())
      \<and> static_type tm receiver = Inr receiver_type
      \<and> method_named tm receiver_type method_name = Some method
      \<and> length args = length (parameter_types method)"
  then have each: "check_each (check_types tm) args = Inr ()"
    by (simp add: check_each_ok)
  from h have a: "\<forall>a\<in>set args. check_types tm a = Inr ()"
    and l: "length args = length (parameter_types method)" by simp_all
  obtain given_names where g: "names_of_exprs tm args = Inr given_names"
    using names_of_exprs_typed[OF a] by blast
  let ?mismatch = "\<exists>i<length args. \<exists>t. static_type tm (args ! i) = Inr t
                     \<and> \<not> is_subtype_of tm t (parameter_types method ! i)"
  have r: "check_types tm (JavaMethodCall receiver method_name args) =
             (if ?mismatch
              then Inl (JavaTypeMismatchError
                     (type_name tm receiver_type @ ''.'' @ method_name
                        @ ''() expects arguments of type ''
                        @ names_of_types tm (parameter_types method)
                        @ '', but got '' @ given_names))
              else Inr ())"
    using h each g by (simp add: argument_types_outcome[OF a l])
  have k: "raises (check_types tm (JavaMethodCall receiver method_name args)) TypeMismatch
      \<longleftrightarrow> ?mismatch"
    unfolding r by simp
  show "\<exists>given_names. names_of_exprs tm args = Inr given_names
         \<and> (raises (check_types tm (JavaMethodCall receiver method_name args)) TypeMismatch
              \<longleftrightarrow> ?mismatch)
         \<and> check_types tm (JavaMethodCall receiver method_name args) =
             (if ?mismatch
              then Inl (JavaTypeMismatchError
                     (type_name tm receiver_type @ ''.'' @ method_name
                        @ ''() expects arguments of type ''
                        @ names_of_types tm (parameter_types method)
                        @ '', but got '' @ given_names))
              else Inr ())"
    by (intro exI[of _ given_names] conjI) (rule g, rule k, rule r)
next
  assume h: "(\<forall>a\<in>set args. check_types tm a = Inr ())
      \<and> is_subtype_of tm instantiated_type (OBJECT tm)
      \<and> constructor tm instantiated_type = Some c
      \<and> length args = length (constructor_parameter_types c)"
  then have each: "check_each (check_types tm) args = Inr ()"
    by (simp add: check_each_ok)
  from h have a: "\<forall>a\<in>set args. check_types tm a = Inr ()"
    and l: "length args = length (constructor_parameter_types c)" by simp_all
  obtain given_names where g: "names_of_exprs tm args = Inr given_names"
    using names_of_exprs_typed[OF a] by blast
  let ?mismatch = "\<exists>i<length args. \<exists>t. static_type tm (args ! i) = Inr t
                     \<and> \<not> is_subtype_of tm t (constructor_parameter_types c ! i)"
  have r: "check_types tm (JavaConstructorCall instantiated_type args) =
             (if ?mismatch
              then Inl (JavaTypeMismatchError
                     (type_name tm instantiated_type
                        @ '' constructor expects arguments of type ''
                        @ names_of_types tm (constructor_parameter_types c)
                        @ '', but got '' @ given_names))
              else Inr ())"
    using h each g by (simp add: argument_types_outcome[OF a l])
  have k: "raises (check_types tm (JavaConstructorCall instantiated_type args)) TypeMismatch
      \<longleftrightarrow> ?mismatch"
    unfolding r by simp
  show "\<exists>given_names. names_of_exprs tm args = Inr given_names
         \<and> (raises (check_types tm (JavaConstructorCall instantiated_type args)) TypeMismatch
              \<longleftrightarrow> ?mismatch)
         \<and> check_types tm (JavaConstructorCall instantiated_type args) =
             (if ?mismatch
              then Inl (JavaTypeMismatchError
                     (type_name tm instantiated_type
                        @ '' constructor expects arguments of type ''
                        @ names_of_types tm (constructor_parameter_types c)
                        @ '', but got '' @ given_names))
              else Inr ())"
    by (intro exI[of _ given_names] conjI) (rule g, rule k, rule r)
qed



text \<open>\<^verbatim>\<open>foo.pet(1, true)\<close> mismatches \<^verbatim>\<open>(Animal, int)\<close> at both positions and raises one
  error; \<^verbatim>\<open>new Foo(1)\<close> mismatches \<^verbatim>\<open>(Animal)\<close>.\<close>

theorem argument_type_mismatch_iff_witness:
  "check_types example_types foo = Inr () \<and> check_types example_types one = Inr ()
   \<and> check_types example_types true = Inr ()
   \<and> static_type example_types foo = Inr FooType
   \<and> method_named example_types FooType ''pet''
       = Some \<lparr>parameter_types = [AnimalType, IntType], return_type = AnimalType\<rparr>
   \<and> length [one, true] = length [AnimalType, IntType]
   \<and> static_type example_types ([one, true] ! 0) = Inr IntType
   \<and> \<not> is_subtype_of example_types IntType ([AnimalType, IntType] ! 0)
   \<and> static_type example_types ([one, true] ! 1) = Inr BooleanType
   \<and> \<not> is_subtype_of example_types BooleanType ([AnimalType, IntType] ! 1)
   \<and> raises (check_types example_types (JavaMethodCall foo ''pet'' [one, true])) TypeMismatch
   \<and> check_types example_types (JavaMethodCall foo ''pet'' [one, true])
       = Inl (JavaTypeMismatchError
           ''Foo.pet() expects arguments of type (Animal, int), but got (int, boolean)'')
   \<and> is_subtype_of example_types FooType (OBJECT example_types)
   \<and> constructor example_types FooType = Some \<lparr>constructor_parameter_types = [AnimalType]\<rparr>
   \<and> raises (check_types example_types (JavaConstructorCall FooType [one])) TypeMismatch
   \<and> check_types example_types (JavaConstructorCall FooType [one])
       = Inl (JavaTypeMismatchError
           ''Foo constructor expects arguments of type (Animal), but got (int)'')"
proof -
  let ?pet = "\<lparr>parameter_types = [AnimalType, IntType], return_type = AnimalType\<rparr>"
  let ?new = "\<lparr>constructor_parameter_types = [AnimalType]\<rparr>"
  have facts: "check_types example_types foo = Inr ()" "check_types example_types one = Inr ()"
    "check_types example_types true = Inr ()"
    "static_type example_types foo = Inr FooType"
    "method_named example_types FooType ''pet'' = Some ?pet"
    "static_type example_types one = Inr IntType"
    "static_type example_types true = Inr BooleanType"
    "\<not> is_subtype_of example_types IntType AnimalType"
    "\<not> is_subtype_of example_types BooleanType IntType"
    "is_subtype_of example_types FooType (OBJECT example_types)"
    "constructor example_types FooType = Some ?new"
    by (simp_all add: example_simps)
  have method_hyp: "check_types example_types foo = Inr ()
      \<and> (\<forall>a\<in>set [one, true]. check_types example_types a = Inr ())
      \<and> static_type example_types foo = Inr FooType
      \<and> method_named example_types FooType ''pet'' = Some ?pet
      \<and> length [one, true] = length (parameter_types ?pet)"
    using facts by simp
  have method_mismatch: "\<exists>i<length [one, true]. \<exists>t.
      static_type example_types ([one, true] ! i) = Inr t
      \<and> \<not> is_subtype_of example_types t (parameter_types ?pet ! i)"
    using facts by (intro exI[of _ 0]) simp
  from argument_type_mismatch_iff [of example_types foo "[one, true]" FooType "''pet''" ?pet
      FooType ?new, THEN conjunct1, THEN mp, OF method_hyp]
  have "raises (check_types example_types (JavaMethodCall foo ''pet'' [one, true])) TypeMismatch
      \<longleftrightarrow> (\<exists>i<length [one, true]. \<exists>t.
      static_type example_types ([one, true] ! i) = Inr t
      \<and> \<not> is_subtype_of example_types t (parameter_types ?pet ! i))"
    by (elim exE conjE)
  from this method_mismatch
  have m: "raises (check_types example_types (JavaMethodCall foo ''pet'' [one, true])) TypeMismatch"
    by (rule iffD2)
  have new_hyp: "(\<forall>a\<in>set [one]. check_types example_types a = Inr ())
      \<and> is_subtype_of example_types FooType (OBJECT example_types)
      \<and> constructor example_types FooType = Some ?new
      \<and> length [one] = length (constructor_parameter_types ?new)"
    using facts by simp
  have new_mismatch: "\<exists>i<length [one]. \<exists>t.
      static_type example_types ([one] ! i) = Inr t
      \<and> \<not> is_subtype_of example_types t (constructor_parameter_types ?new ! i)"
    using facts by (intro exI[of _ 0]) simp
  from argument_type_mismatch_iff [of example_types foo "[one]" FooType "''pet''" ?pet
      FooType ?new, THEN conjunct2, THEN mp, OF new_hyp]
  have "raises (check_types example_types (JavaConstructorCall FooType [one])) TypeMismatch
      \<longleftrightarrow> (\<exists>i<length [one]. \<exists>t.
      static_type example_types ([one] ! i) = Inr t
      \<and> \<not> is_subtype_of example_types t (constructor_parameter_types ?new ! i))"
    by (elim exE conjE)
  from this new_mismatch
  have c: "raises (check_types example_types (JavaConstructorCall FooType [one])) TypeMismatch"
    by (rule iffD2)
  have m_msg: "check_types example_types (JavaMethodCall foo ''pet'' [one, true])
       = Inl (JavaTypeMismatchError
           ''Foo.pet() expects arguments of type (Animal, int), but got (int, boolean)'')"
    by (simp add: example_simps)
  have c_msg: "check_types example_types (JavaConstructorCall FooType [one])
       = Inl (JavaTypeMismatchError
           ''Foo constructor expects arguments of type (Animal), but got (int)'')"
    by (simp add: example_simps)
  show ?thesis
    using facts m c by (simp only: m_msg c_msg) simp
qed

subsection \<open>Instantiation\<close>

text \<open>
  C4. For a constructor call whose arguments check, \<^verbatim>\<open>check_types\<close> raises
  \<^verbatim>\<open>JavaIllegalInstantiationError\<close> iff the target type is not a subtype of
  \<^verbatim>\<open>JavaBuiltInTypes.OBJECT\<close>. The test comes before the constructor is read and before the
  arguments are counted: for such a target the error is the outcome whatever constructor
  the type model holds for it, none included, and however many arguments there are,
  none included.
\<close>

theorem illegal_instantiation_iff:
  assumes "\<forall>a\<in>set args. check_types tm a = Inr ()"
  shows "(raises (check_types tm (JavaConstructorCall instantiated_type args)) IllegalInstantiation
            \<longleftrightarrow> \<not> is_subtype_of tm instantiated_type (OBJECT tm))
     \<and> (\<not> is_subtype_of tm instantiated_type (OBJECT tm) \<longrightarrow>
          check_types tm (JavaConstructorCall instantiated_type args) =
            Inl (JavaIllegalInstantiationError
              (''Type '' @ type_name tm instantiated_type @ '' is not instantiable'')))
     \<and> (\<not> is_subtype_of tm instantiated_type (OBJECT tm) \<longrightarrow>
          raises (check_types tm (JavaConstructorCall instantiated_type [])) IllegalInstantiation)"
proof -
  from assms have each: "check_each (check_types tm) args = Inr ()"
    by (simp add: check_each_ok)
  show ?thesis
  proof (cases "is_subtype_of tm instantiated_type (OBJECT tm)")
    case False
    with each show ?thesis by simp
  next
    case True
    have "\<not> raises (check_types tm (JavaConstructorCall instantiated_type args))
        IllegalInstantiation"
    proof (cases "constructor tm instantiated_type")
      case None
      with each True show ?thesis by simp
    next
      case (Some c)
      show ?thesis
      proof (cases "length (constructor_parameter_types c) = length args")
        case False
        with each True Some show ?thesis by simp
      next
        case l: True
        then have l': "length args = length (constructor_parameter_types c)" by simp
        show ?thesis
          using each True Some l
          by (simp add: argument_types_outcome[OF assms l'])
      qed
    qed
    with True show ?thesis by simp
  qed
qed

text \<open>\<^verbatim>\<open>new int()\<close> and \<^verbatim>\<open>new int(1)\<close>, where \<^verbatim>\<open>int\<close> has no constructor to read, raise
  the error; \<^verbatim>\<open>new Dog(1)\<close> does not (it has one argument too many).\<close>

theorem illegal_instantiation_iff_witness:
  "\<not> is_subtype_of example_types IntType (OBJECT example_types)
   \<and> constructor example_types IntType = None
   \<and> check_types example_types (JavaConstructorCall IntType []) =
        Inl (JavaIllegalInstantiationError ''Type int is not instantiable'')
   \<and> raises (check_types example_types (JavaConstructorCall IntType [])) IllegalInstantiation
   \<and> check_types example_types one = Inr ()
   \<and> raises (check_types example_types (JavaConstructorCall IntType [one])) IllegalInstantiation
   \<and> is_subtype_of example_types DogType (OBJECT example_types)
   \<and> \<not> raises (check_types example_types (JavaConstructorCall DogType [one])) IllegalInstantiation"
proof -
  have facts: "\<not> is_subtype_of example_types IntType (OBJECT example_types)"
    "constructor example_types IntType = None"
    "check_types example_types one = Inr ()"
    "is_subtype_of example_types DogType (OBJECT example_types)"
    by (simp_all add: example_simps)
  have none: "\<forall>a\<in>set []. check_types example_types a = Inr ()" by simp
  have some: "\<forall>a\<in>set [one]. check_types example_types a = Inr ()" using facts by simp
  note int0 = illegal_instantiation_iff [OF none, of IntType]
  note int1 = illegal_instantiation_iff [OF some, of IntType]
  note dog1 = illegal_instantiation_iff [OF some, of DogType]
  from int0 facts(1)
  have a: "check_types example_types (JavaConstructorCall IntType []) =
        Inl (JavaIllegalInstantiationError (''Type '' @ type_name example_types IntType
          @ '' is not instantiable''))"
    by blast
  from int0 facts(1)
  have b: "raises (check_types example_types (JavaConstructorCall IntType [])) IllegalInstantiation"
    by blast
  from int1 facts(1)
  have c: "raises (check_types example_types (JavaConstructorCall IntType [one])) IllegalInstantiation"
    by blast
  from dog1 facts(4)
  have d: "\<not> raises (check_types example_types (JavaConstructorCall DogType [one])) IllegalInstantiation"
    by blast
  have name: "''Type '' @ type_name example_types IntType @ '' is not instantiable''
      = ''Type int is not instantiable''"
    by (simp add: example_simps)
  show ?thesis using facts a b c d unfolding name by (intro conjI)
qed

subsection \<open>Method lookup\<close>

text \<open>
  C5. For a method call whose receiver and arguments check, a method name that the type
  model does not resolve on the static type of the receiver makes \<^verbatim>\<open>check_types\<close> end with
  \<^verbatim>\<open>NoSuchJavaMethod\<close>, a type error, however many arguments the call has: the lookup
  comes before the count, and never \<^verbatim>\<open>JavaArgumentCountError\<close>. The error is not caught on
  the way up: the check of an assignment with the call on its right side ends with it too.
\<close>

theorem no_such_method_propagates:
  assumes "check_types tm receiver = Inr ()"
    and "\<forall>a\<in>set args. check_types tm a = Inr ()"
    and "static_type tm receiver = Inr receiver_type"
    and "method_named tm receiver_type method_name = None"
  shows "check_types tm (JavaMethodCall receiver method_name args) = Inl NoSuchJavaMethod
     \<and> raises (check_types tm (JavaMethodCall receiver method_name args)) NoSuchMethod
     \<and> \<not> raises (check_types tm (JavaMethodCall receiver method_name args)) ArgumentCountMismatch
     \<and> is_JavaTypeError NoSuchJavaMethod
     \<and> check_types tm (JavaAssignment lhs (JavaMethodCall receiver method_name args))
          = Inl NoSuchJavaMethod"
proof -
  from assms(2) have each: "check_each (check_types tm) args = Inr ()"
    by (simp add: check_each_ok)
  with assms have r: "check_types tm (JavaMethodCall receiver method_name args) = Inl NoSuchJavaMethod"
    by simp
  have "check_types tm (JavaAssignment lhs (JavaMethodCall receiver method_name args))
          = Inl NoSuchJavaMethod"
    by (simp only: check_types.simps(4) r JavaVariable_check_types_def sum.case)
  then show ?thesis unfolding r by simp
qed

text \<open>\<^verbatim>\<open>foo.baz(1)\<close>, where \<^verbatim>\<open>Foo\<close> has no method \<^verbatim>\<open>baz\<close>.\<close>

theorem no_such_method_propagates_witness:
  "check_types example_types foo = Inr () \<and> check_types example_types one = Inr ()
   \<and> static_type example_types foo = Inr FooType
   \<and> method_named example_types FooType ''baz'' = None
   \<and> check_types example_types (JavaMethodCall foo ''baz'' [one]) = Inl NoSuchJavaMethod
   \<and> check_types example_types (JavaAssignment animal_variable (JavaMethodCall foo ''baz'' [one]))
        = Inl NoSuchJavaMethod"
proof -
  have facts: "check_types example_types foo = Inr ()" "check_types example_types one = Inr ()"
    "static_type example_types foo = Inr FooType"
    "method_named example_types FooType ''baz'' = None"
    by (simp_all add: example_simps)
  have args: "\<forall>a\<in>set [one]. check_types example_types a = Inr ()" using facts by simp
  from no_such_method_propagates [OF facts(1) args facts(3) facts(4), of animal_variable] facts
  show ?thesis by (intro conjI) (elim conjE, assumption)+
qed

subsection \<open>Static types\<close>

text \<open>
  C7. \<^verbatim>\<open>static_type\<close> of each node: the declared type of a variable, the type of a
  literal, the null type of the null literal; for an assignment the static type of its left
  side, the declared type of the variable; for a method call the return type of the
  method that the name resolves to on the static type of the receiver; for a constructor
  call the instantiated type.
\<close>

theorem static_type_of_each_node:
  "static_type tm (Variable v) = Inr (declared_type v)
   \<and> static_type tm (JavaLiteral val ty) = Inr ty
   \<and> static_type tm JavaNullLiteral = Inr (NULL tm)
   \<and> static_type tm (JavaAssignment lhs rhs) = Inr (declared_type lhs)
   \<and> static_type tm (JavaAssignment lhs rhs) = static_type tm (Variable lhs)
   \<and> (static_type tm receiver = Inr receiver_type
        \<and> method_named tm receiver_type method_name = Some method
      \<longrightarrow> static_type tm (JavaMethodCall receiver method_name args) = Inr (return_type method))
   \<and> static_type tm (JavaConstructorCall instantiated_type args) = Inr instantiated_type"
  by (simp add: JavaVariable_static_type_def)

text \<open>\<^verbatim>\<open>a = new Dog()\<close> has the type \<^verbatim>\<open>Animal\<close> of \<^verbatim>\<open>a\<close>; \<^verbatim>\<open>d.speak()\<close> resolves on
  \<^verbatim>\<open>Animal\<close> and has type \<^verbatim>\<open>String\<close>; \<^verbatim>\<open>new Dog()\<close> has type \<^verbatim>\<open>Dog\<close>.\<close>

theorem static_type_of_each_node_witness:
  "static_type example_types (JavaAssignment animal_variable new_dog) = Inr AnimalType
   \<and> static_type example_types (Variable dog_variable) = Inr DogType
   \<and> method_named example_types DogType ''speak''
        = Some \<lparr>parameter_types = [], return_type = StringType\<rparr>
   \<and> static_type example_types (JavaMethodCall (Variable dog_variable) ''speak'' [])
        = Inr StringType
   \<and> static_type example_types new_dog = Inr DogType"
proof -
  let ?speak = "\<lparr>parameter_types = [], return_type = StringType\<rparr>"
  have facts: "static_type example_types (Variable dog_variable) = Inr DogType"
    "method_named example_types DogType ''speak'' = Some ?speak"
    "declared_type animal_variable = AnimalType"
    "new_dog = JavaConstructorCall DogType []"
    by (simp_all add: example_simps)
  note t = static_type_of_each_node [of example_types dog_variable "''1''" IntType
    animal_variable new_dog "Variable dog_variable" DogType "''speak''" ?speak "[]" DogType]
  from t have a: "static_type example_types (JavaAssignment animal_variable new_dog)
      = Inr (declared_type animal_variable)" by (elim conjE)
  have m: "static_type example_types
      (JavaMethodCall (Variable dog_variable) ''speak'' []) = Inr (return_type ?speak)"
    by (rule t [THEN conjunct2, THEN conjunct2, THEN conjunct2, THEN conjunct2, THEN conjunct2,
      THEN conjunct1, THEN mp, OF conjI [OF facts(1) facts(2)]])
  from t have c: "static_type example_types (JavaConstructorCall DogType []) = Inr DogType"
    by (elim conjE)
  show ?thesis using facts a m c by simp
qed

text \<open>
  C10. \<^verbatim>\<open>JavaMethodCall.static_type\<close> looks the method up and does nothing else: when the
  name resolves on the static type of the receiver, the result is the return type of the
  method, whatever the arguments are; when it does not, the lookup failure is the result;
  the arguments never matter.
\<close>

theorem method_call_static_type_ignores_arguments:
  "(static_type tm receiver = Inr receiver_type
        \<and> method_named tm receiver_type method_name = Some method
      \<longrightarrow> static_type tm (JavaMethodCall receiver method_name args) = Inr (return_type method))
   \<and> (static_type tm receiver = Inr receiver_type
        \<and> method_named tm receiver_type method_name = None
      \<longrightarrow> static_type tm (JavaMethodCall receiver method_name args) = Inl NoSuchJavaMethod)
   \<and> static_type tm (JavaMethodCall receiver method_name args)
        = static_type tm (JavaMethodCall receiver method_name args')"
  by simp

text \<open>\<^verbatim>\<open>foo.bar(1)\<close> and \<^verbatim>\<open>foo.bar(1, true)\<close> fail the check, by count and by type, and
  have the static type \<^verbatim>\<open>void\<close>; \<^verbatim>\<open>foo.baz(1)\<close> has none.\<close>

theorem method_call_static_type_ignores_arguments_witness:
  "static_type example_types foo = Inr FooType
   \<and> method_named example_types FooType ''bar''
        = Some \<lparr>parameter_types = [IntType, IntType], return_type = VoidType\<rparr>
   \<and> raises (check_types example_types (JavaMethodCall foo ''bar'' [one])) ArgumentCountMismatch
   \<and> static_type example_types (JavaMethodCall foo ''bar'' [one]) = Inr VoidType
   \<and> raises (check_types example_types (JavaMethodCall foo ''bar'' [one, true])) TypeMismatch
   \<and> static_type example_types (JavaMethodCall foo ''bar'' [one, true]) = Inr VoidType
   \<and> method_named example_types FooType ''baz'' = None
   \<and> static_type example_types (JavaMethodCall foo ''baz'' [one]) = Inl NoSuchJavaMethod"
proof -
  let ?bar = "\<lparr>parameter_types = [IntType, IntType], return_type = VoidType\<rparr>"
  have facts: "static_type example_types foo = Inr FooType"
    "method_named example_types FooType ''bar'' = Some ?bar"
    "method_named example_types FooType ''baz'' = None"
    "raises (check_types example_types (JavaMethodCall foo ''bar'' [one])) ArgumentCountMismatch"
    "raises (check_types example_types (JavaMethodCall foo ''bar'' [one, true])) TypeMismatch"
    by (simp_all add: example_simps)
  have a: "static_type example_types (JavaMethodCall foo ''bar'' [one]) = Inr (return_type ?bar)"
    by (rule method_call_static_type_ignores_arguments
      [of example_types foo FooType "''bar''" ?bar "[one]", THEN conjunct1, THEN mp,
       OF conjI [OF facts(1) facts(2)]])
  have b: "static_type example_types (JavaMethodCall foo ''bar'' [one, true])
      = Inr (return_type ?bar)"
    by (rule method_call_static_type_ignores_arguments
      [of example_types foo FooType "''bar''" ?bar "[one, true]", THEN conjunct1, THEN mp,
       OF conjI [OF facts(1) facts(2)]])
  have c: "static_type example_types (JavaMethodCall foo ''baz'' [one]) = Inl NoSuchJavaMethod"
    by (rule method_call_static_type_ignores_arguments
      [of example_types foo FooType "''baz''" ?bar "[one]", THEN conjunct2, THEN conjunct1,
       THEN mp, OF conjI [OF facts(1) facts(3)]])
  show ?thesis using facts a b c by simp
qed


subsection \<open>Sub-expressions first\<close>

text \<open>The logged run has the outcome of \<^verbatim>\<open>check_types\<close>, and is, for every class, the
  invocation, the loop over the sub-expressions, and the checks of the node itself.\<close>

lemma check_each_log_outcome:
  "(\<And>i a. a \<in> set args \<Longrightarrow> snd (chk i a) = chk0 a)
     \<Longrightarrow> snd (check_each_log chk k args) = check_each chk0 args"
proof (induction args arbitrary: k)
  case Nil
  then show ?case by simp
next
  case (Cons a args)
  have a: "snd (chk k a) = chk0 a" using Cons.prems by simp
  have r: "snd (check_each_log chk (Suc k) args) = check_each chk0 args"
    using Cons.IH Cons.prems by simp
  show ?case
    using a r by (cases "chk k a"; cases "check_each_log chk (Suc k) args")
      (auto split: sum.splits)
qed

lemma check_types_log_outcome: "snd (check_types_log tm p e) = check_types tm e"
proof (induction e arbitrary: p)
  case (Variable v)
  then show ?case by (simp add: JavaVariable_check_types_log_def)
next
  case (JavaLiteral val ty)
  then show ?case by simp
next
  case JavaNullLiteral
  then show ?case by simp
next
  case (JavaAssignment lhs rhs)
  from JavaAssignment[of "p @ [1]"] show ?case
    by (cases "check_types_log tm (p @ [1]) rhs")
      (auto simp: JavaVariable_check_types_log_def JavaVariable_check_types_def
        simp del: JavaAssignment_checks.simps JavaAssignment_steps.simps split: sum.splits)
next
  case (JavaMethodCall receiver method_name args)
  have each: "snd (check_each_log (\<lambda>i. check_types_log tm (p @ [i])) 1 args)
      = check_each (check_types tm) args"
    by (rule check_each_log_outcome) (rule JavaMethodCall(2))
  from JavaMethodCall(1)[of "p @ [0]"] each show ?case
    by (cases "check_types_log tm (p @ [0]) receiver";
        cases "check_each_log (\<lambda>i. check_types_log tm (p @ [i])) 1 args")
      (auto simp del: JavaMethodCall_checks.simps JavaMethodCall_steps.simps split: sum.splits)
next
  case (JavaConstructorCall instantiated_type args)
  have each: "snd (check_each_log (\<lambda>i. check_types_log tm (p @ [i])) 0 args)
      = check_each (check_types tm) args"
    by (rule check_each_log_outcome) (rule JavaConstructorCall)
  from each show ?case
    by (cases "check_each_log (\<lambda>i. check_types_log tm (p @ [i])) 0 args")
      (auto simp del: JavaConstructorCall_checks.simps JavaConstructorCall_steps.simps
        split: sum.splits)
qed

lemma check_types_log_children:
  "check_types_log tm p e =
     (case check_each_log (\<lambda>i. check_types_log tm (p @ [i])) 0 (children e) of
        (steps, Inl err) \<Rightarrow> (Invoked p # steps, Inl err)
      | (steps, Inr u) \<Rightarrow> (Invoked p # steps @ own_steps tm p e, check_types tm e))"
proof (cases e)
  case (Variable v)
  then show ?thesis by (simp add: JavaVariable_check_types_log_def)
next
  case (JavaLiteral val ty)
  then show ?thesis by simp
next
  case JavaNullLiteral
  then show ?thesis by simp
next
  case (JavaAssignment lhs rhs)
  have "snd (check_types_log tm (p @ [1]) rhs) = check_types tm rhs"
    by (rule check_types_log_outcome)
  with JavaAssignment show ?thesis
    by (cases "check_types_log tm (p @ [1]) rhs")
      (auto simp: JavaVariable_check_types_log_def JavaVariable_check_types_def
        simp del: JavaAssignment_checks.simps JavaAssignment_steps.simps split: sum.splits)
next
  case (JavaMethodCall receiver method_name args)
  have "snd (check_types_log tm (p @ [0]) receiver) = check_types tm receiver"
    by (rule check_types_log_outcome)
  moreover have "snd (check_each_log (\<lambda>i. check_types_log tm (p @ [i])) 1 args)
      = check_each (check_types tm) args"
    by (rule check_each_log_outcome) (rule check_types_log_outcome)
  ultimately show ?thesis using JavaMethodCall
    by (cases "check_types_log tm (p @ [0]) receiver";
        cases "check_each_log (\<lambda>i. check_types_log tm (p @ [i])) 1 args")
      (auto simp del: JavaMethodCall_checks.simps JavaMethodCall_steps.simps split: sum.splits)
next
  case (JavaConstructorCall instantiated_type args)
  have "snd (check_each_log (\<lambda>i. check_types_log tm (p @ [i])) 0 args)
      = check_each (check_types tm) args"
    by (rule check_each_log_outcome) (rule check_types_log_outcome)
  then show ?thesis using JavaConstructorCall
    by (cases "check_each_log (\<lambda>i. check_types_log tm (p @ [i])) 0 args")
      (auto simp del: JavaConstructorCall_checks.simps JavaConstructorCall_steps.simps
        split: sum.splits)
qed

text \<open>The log of the loop when every check returns, and when the check at j is the first to raise.\<close>

lemma upt_Suc_shift: "[0..<Suc n] = 0 # map Suc [0..<n]"
  by (simp add: upt_conv_Cons map_Suc_upt del: upt_Suc)

lemma check_each_log_all:
  "\<forall>i<length cs. snd (chk (k + i) (cs ! i)) = Inr ()
    \<Longrightarrow> check_each_log chk k cs
        = (concat (map (\<lambda>i. fst (chk (k + i) (cs ! i))) [0..<length cs]), Inr ())"
proof (induction cs arbitrary: k)
  case Nil
  then show ?case by simp
next
  case (Cons c cs)
  from Cons.prems have c: "snd (chk k c) = Inr ()" by force
  have "\<forall>i<length cs. snd (chk (Suc k + i) (cs ! i)) = Inr ()"
  proof (intro allI impI)
    fix i assume "i < length cs"
    then have "snd (chk (k + Suc i) ((c # cs) ! Suc i)) = Inr ()"
      using Cons.prems by (metis Suc_less_eq length_Cons)
    then show "snd (chk (Suc k + i) (cs ! i)) = Inr ()" by simp
  qed
  from Cons.IH[OF this]
  have r: "check_each_log chk (Suc k) cs
        = (concat (map (\<lambda>i. fst (chk (Suc k + i) (cs ! i))) [0..<length cs]), Inr ())" .
  have "concat (map (\<lambda>i. fst (chk (k + i) ((c # cs) ! i))) [0..<length (c # cs)])
      = fst (chk k c) @ concat (map (\<lambda>i. fst (chk (Suc k + i) (cs ! i))) [0..<length cs])"
    by (simp add: upt_Suc_shift comp_def del: upt_Suc)
  with c r show ?case
    by (cases "chk k c") (simp del: upt_Suc)
qed

lemma check_each_log_first_failure:
  "j < length cs \<Longrightarrow> \<forall>i<j. snd (chk (k + i) (cs ! i)) = Inr ()
    \<Longrightarrow> snd (chk (k + j) (cs ! j)) = Inl err
    \<Longrightarrow> check_each_log chk k cs
        = (concat (map (\<lambda>i. fst (chk (k + i) (cs ! i))) [0..<Suc j]), Inl err)"
proof (induction cs arbitrary: k j)
  case Nil
  then show ?case by simp
next
  case (Cons c cs)
  show ?case
  proof (cases j)
    case 0
    with Cons.prems show ?thesis by (cases "chk k c") simp
  next
    case (Suc j')
    with Cons.prems have c: "snd (chk k c) = Inr ()" by force
    have j': "j' < length cs" using Cons.prems Suc by simp
    have ok: "\<forall>i<j'. snd (chk (Suc k + i) (cs ! i)) = Inr ()"
    proof (intro allI impI)
      fix i assume "i < j'"
      then have "snd (chk (k + Suc i) ((c # cs) ! Suc i)) = Inr ()"
        using Cons.prems(2) Suc by (metis Suc_less_eq)
      then show "snd (chk (Suc k + i) (cs ! i)) = Inr ()" by simp
    qed
    have bad: "snd (chk (Suc k + j') (cs ! j')) = Inl err"
      using Cons.prems(3) Suc by simp
    from Cons.IH[OF j' ok bad]
    have r: "check_each_log chk (Suc k) cs
        = (concat (map (\<lambda>i. fst (chk (Suc k + i) (cs ! i))) [0..<Suc j']), Inl err)" .
    have "concat (map (\<lambda>i. fst (chk (k + i) ((c # cs) ! i))) [0..<Suc (Suc j')])
      = fst (chk k c) @ concat (map (\<lambda>i. fst (chk (Suc k + i) (cs ! i))) [0..<Suc j'])"
      by (simp add: upt_Suc_shift[of "Suc j'"] comp_def del: upt_Suc)
    with c r Suc show ?thesis
      by (cases "chk k c") (simp del: upt_Suc)
  qed
qed

lemma check_each_log_steps:
  "s \<in> set (fst (check_each_log chk k cs))
    \<Longrightarrow> \<exists>i<length cs. s \<in> set (fst (chk (k + i) (cs ! i)))"
proof (induction cs arbitrary: k)
  case Nil
  then show ?case by simp
next
  case (Cons c cs)
  show ?case
  proof (cases "s \<in> set (fst (chk k c))")
    case True
    then show ?thesis by (intro exI[of _ 0]) simp
  next
    case False
    with Cons.prems have "s \<in> set (fst (check_each_log chk (Suc k) cs))"
      by (cases "chk k c"; cases "check_each_log chk (Suc k) cs") (auto split: sum.splits)
    from Cons.IH[OF this] obtain i where "i < length cs"
      "s \<in> set (fst (chk (Suc k + i) (cs ! i)))" by blast
    then show ?thesis by (intro exI[of _ "Suc i"]) simp
  qed
qed

lemma own_steps_performer:
  "s \<in> set (own_steps tm p e) \<Longrightarrow> performer s = p \<and> \<not> is_invocation s"
  by (cases e) (auto split: sum.splits option.splits if_splits)

lemma check_types_log_performer:
  "s \<in> set (fst (check_types_log tm p e)) \<Longrightarrow> prefix p (performer s)"
proof (induction e arbitrary: p s)
  case (Variable v)
  then show ?case by (simp add: JavaVariable_check_types_log_def)
next
  case (JavaLiteral val ty)
  then show ?case by simp
next
  case JavaNullLiteral
  then show ?case by simp
next
  case (JavaAssignment lhs rhs)
  have sub: "\<And>s. s \<in> set (fst (check_types_log tm (p @ [1]) rhs)) \<Longrightarrow> prefix p (performer s)"
    using JavaAssignment.IH[of _ "p @ [1]"] by (meson append_prefixD)
  obtain l r where lr: "check_types_log tm (p @ [1]) rhs = (l, r)"
    by (cases "check_types_log tm (p @ [1]) rhs")
  have sub': "\<And>s. s \<in> set l \<Longrightarrow> prefix p (performer s)"
    using sub lr by simp
  from JavaAssignment.prems lr show ?case
    by (auto simp: JavaVariable_check_types_log_def JavaVariable_check_types_def
        JavaVariable_static_type_def dest: sub'
        simp del: JavaAssignment_checks.simps split: sum.splits)
next
  case (JavaMethodCall receiver method_name args)
  have r: "\<And>s. s \<in> set (fst (check_types_log tm (p @ [0]) receiver)) \<Longrightarrow> prefix p (performer s)"
    using JavaMethodCall.IH(1)[of _ "p @ [0]"] by (meson append_prefixD)
  have a: "\<And>s. s \<in> set (fst (check_each_log (\<lambda>i. check_types_log tm (p @ [i])) 1 args))
      \<Longrightarrow> prefix p (performer s)"
  proof -
    fix s assume "s \<in> set (fst (check_each_log (\<lambda>i. check_types_log tm (p @ [i])) 1 args))"
    from check_each_log_steps[OF this] obtain i where i: "i < length args"
      "s \<in> set (fst (check_types_log tm (p @ [1 + i]) (args ! i)))" by blast
    then have "prefix (p @ [1 + i]) (performer s)"
      using JavaMethodCall.IH(2)[of "args ! i" s "p @ [1 + i]"] by simp
    then show "prefix p (performer s)" by (meson append_prefixD)
  qed
  obtain l0 r0 where lr0: "check_types_log tm (p @ [0]) receiver = (l0, r0)"
    by (cases "check_types_log tm (p @ [0]) receiver")
  obtain l1 r1 where lr1:
    "check_each_log (\<lambda>i. check_types_log tm (p @ [i])) 1 args = (l1, r1)"
    by (cases "check_each_log (\<lambda>i. check_types_log tm (p @ [i])) 1 args")
  have r': "\<And>s. s \<in> set l0 \<Longrightarrow> prefix p (performer s)"
    using r lr0 by simp
  have a': "\<And>s. s \<in> set l1 \<Longrightarrow> prefix p (performer s)"
    using a lr1 by simp
  from JavaMethodCall.prems lr0 lr1 show ?case
    by (auto dest: r' a' simp del: JavaMethodCall_checks.simps
        split: sum.splits option.splits if_splits)
next
  case (JavaConstructorCall instantiated_type args)
  have a: "\<And>s. s \<in> set (fst (check_each_log (\<lambda>i. check_types_log tm (p @ [i])) 0 args))
      \<Longrightarrow> prefix p (performer s)"
  proof -
    fix s assume "s \<in> set (fst (check_each_log (\<lambda>i. check_types_log tm (p @ [i])) 0 args))"
    from check_each_log_steps[OF this] obtain i where i: "i < length args"
      "s \<in> set (fst (check_types_log tm (p @ [0 + i]) (args ! i)))" by blast
    then have "prefix (p @ [0 + i]) (performer s)"
      using JavaConstructorCall.IH[of "args ! i" s "p @ [0 + i]"] by simp
    then show "prefix p (performer s)" by (meson append_prefixD)
  qed
  obtain l1 r1 where lr1:
    "check_each_log (\<lambda>i. check_types_log tm (p @ [i])) 0 args = (l1, r1)"
    by (cases "check_each_log (\<lambda>i. check_types_log tm (p @ [i])) 0 args")
  have a': "\<And>s. s \<in> set l1 \<Longrightarrow> prefix p (performer s)"
    using a lr1 by simp
  from JavaConstructorCall.prems lr1 show ?case
    by (auto dest: a' simp del: JavaConstructorCall_checks.simps
        split: sum.splits option.splits if_splits)
qed

lemma sub_logs_performer:
  assumes "s \<in> set (sub_logs tm p e n)"
  shows "\<exists>i<n. prefix (p @ [i]) (performer s)"
proof -
  from assms obtain i where "i < n" "s \<in> set (fst (check_types_log tm (p @ [i]) (children e ! i)))"
    by (auto simp: sub_logs_def)
  then show ?thesis using check_types_log_performer by blast
qed

lemma not_prefix_child: "\<not> prefix (p @ [i]) p"
  by (auto simp: prefix_def)

lemma prefix_sibling: "prefix (p @ [k]) (p @ [i]) \<Longrightarrow> k = i"
  by (auto simp: prefix_def Cons_eq_append_conv)

lemma sub_logs_not_self: "s \<in> set (sub_logs tm p e n) \<Longrightarrow> performer s \<noteq> p"
  using sub_logs_performer not_prefix_child by metis

lemma sub_logs_Suc:
  "sub_logs tm p e (Suc n) = sub_logs tm p e n @ fst (check_types_log tm (p @ [n]) (children e ! n))"
  by (simp add: sub_logs_def)

lemma check_types_log_invoked_once:
  "count_list (fst (check_types_log tm p e)) (Invoked p) = 1"
proof -
  obtain steps r where sr:
    "check_each_log (\<lambda>i. check_types_log tm (p @ [i])) 0 (children e) = (steps, r)"
    by (cases "check_each_log (\<lambda>i. check_types_log tm (p @ [i])) 0 (children e)")
  have "Invoked p \<notin> set steps"
  proof
    assume "Invoked p \<in> set steps"
    then have "Invoked p \<in> set (fst (check_each_log (\<lambda>i. check_types_log tm (p @ [i])) 0
        (children e)))" using sr by simp
    from check_each_log_steps[OF this] obtain i where
      "Invoked p \<in> set (fst (check_types_log tm (p @ [0 + i]) (children e ! i)))" by blast
    from check_types_log_performer[OF this] show False
      by (simp add: not_prefix_child)
  qed
  then have steps: "count_list steps (Invoked p) = 0" by (simp add: count_list_0_iff)
  have "Invoked p \<notin> set (own_steps tm p e)"
    using own_steps_performer[of "Invoked p" tm p e] by auto
  then have own: "count_list (own_steps tm p e) (Invoked p) = 0" by (simp add: count_list_0_iff)
  show ?thesis
    using steps own sr
    by (subst check_types_log_children) (auto split: sum.splits)
qed

lemma sub_logs_count:
  "count_list (sub_logs tm p e n) (Invoked (p @ [i])) = (if i < n then 1 else 0)"
proof (induction n)
  case 0
  then show ?case by (simp add: sub_logs_def)
next
  case (Suc n)
  show ?case
  proof (cases "i = n")
    case True
    then show ?thesis
      using Suc check_types_log_invoked_once[of tm "p @ [n]" "children e ! n"]
      by (simp add: sub_logs_Suc)
  next
    case False
    have "Invoked (p @ [i]) \<notin> set (fst (check_types_log tm (p @ [n]) (children e ! n)))"
    proof
      assume "Invoked (p @ [i]) \<in> set (fst (check_types_log tm (p @ [n]) (children e ! n)))"
      from check_types_log_performer[OF this] have "n = i"
        by (simp add: prefix_sibling)
      with False show False by simp
    qed
    then have "count_list (fst (check_types_log tm (p @ [n]) (children e ! n)))
        (Invoked (p @ [i])) = 0"
      by (simp add: count_list_0_iff)
    with Suc False show ?thesis by (simp add: sub_logs_Suc)
  qed
qed

lemma check_types_log_all_children:
  assumes "\<forall>c\<in>set (children e). check_types tm c = Inr ()"
  shows "fst (check_types_log tm p e)
      = Invoked p # sub_logs tm p e (length (children e)) @ own_steps tm p e"
proof -
  have "\<forall>i<length (children e).
      snd (check_types_log tm (p @ [0 + i]) (children e ! i)) = Inr ()"
    using assms by (simp add: check_types_log_outcome)
  from check_each_log_all[of "children e" "\<lambda>i. check_types_log tm (p @ [i])" 0, OF this]
  have "check_each_log (\<lambda>i. check_types_log tm (p @ [i])) 0 (children e)
      = (sub_logs tm p e (length (children e)), Inr ())"
    by (simp add: sub_logs_def)
  then show ?thesis
    by (subst check_types_log_children) simp
qed

lemma check_types_log_first_failure:
  assumes "j < length (children e)"
    and "\<forall>i<j. check_types tm (children e ! i) = Inr ()"
    and "check_types tm (children e ! j) = Inl err"
  shows "check_types_log tm p e = (Invoked p # sub_logs tm p e (Suc j), Inl err)"
proof -
  have ok: "\<forall>i<j. snd (check_types_log tm (p @ [0 + i]) (children e ! i)) = Inr ()"
    using assms(2) by (simp add: check_types_log_outcome)
  have bad: "snd (check_types_log tm (p @ [0 + j]) (children e ! j)) = Inl err"
    using assms(3) by (simp add: check_types_log_outcome)
  from check_each_log_first_failure[of j "children e" "\<lambda>i. check_types_log tm (p @ [i])" 0 err,
      OF assms(1) ok bad]
  have "check_each_log (\<lambda>i. check_types_log tm (p @ [i])) 0 (children e)
      = (sub_logs tm p e (Suc j), Inl err)"
    by (simp add: sub_logs_def del: upt_Suc)
  then show ?thesis
    by (subst check_types_log_children) simp
qed

text \<open>
  C6. For every node at every position, with the outcome of \<^verbatim>\<open>check_types\<close>:
  when the checks of all sub-expressions return, the log is the invocation of the node,
  the logs of its sub-expressions in order, and then the checks of the node itself, and
  \<^verbatim>\<open>check_types\<close> was invoked exactly once on each sub-expression; when the check of
  sub-expression \<open>j\<close> is the first to raise, that error is the outcome, the log ends with
  the log of that sub-expression, it holds no check of the node itself, and
  \<^verbatim>\<open>check_types\<close> was invoked once on each sub-expression up to \<open>j\<close> and on none after it.
  The checks of the node itself belong to the node and are no invocations; the logs of the
  sub-expressions hold no step of the node.
\<close>

theorem sub_expressions_checked_once_before_own_checks:
  "snd (check_types_log tm p e) = check_types tm e
   \<and> ((\<forall>c\<in>set (children e). check_types tm c = Inr ()) \<longrightarrow>
        fst (check_types_log tm p e)
          = Invoked p # sub_logs tm p e (length (children e)) @ own_steps tm p e
        \<and> (\<forall>i<length (children e).
              count_list (fst (check_types_log tm p e)) (Invoked (p @ [i])) = 1))
   \<and> (j < length (children e) \<and> (\<forall>i<j. check_types tm (children e ! i) = Inr ())
        \<and> check_types tm (children e ! j) = Inl err \<longrightarrow>
        check_types tm e = Inl err
        \<and> fst (check_types_log tm p e) = Invoked p # sub_logs tm p e (Suc j)
        \<and> (\<forall>s\<in>set (fst (check_types_log tm p e)). performer s = p \<longrightarrow> s = Invoked p)
        \<and> (\<forall>i. count_list (fst (check_types_log tm p e)) (Invoked (p @ [i]))
              = (if i \<le> j then 1 else 0)))
   \<and> (\<forall>s\<in>set (own_steps tm p e). performer s = p \<and> \<not> is_invocation s)
   \<and> (\<forall>s\<in>set (sub_logs tm p e n). performer s \<noteq> p)"
proof (intro conjI impI)
  show "snd (check_types_log tm p e) = check_types tm e"
    by (rule check_types_log_outcome)
next
  assume a: "\<forall>c\<in>set (children e). check_types tm c = Inr ()"
  show l: "fst (check_types_log tm p e)
      = Invoked p # sub_logs tm p e (length (children e)) @ own_steps tm p e"
    using a by (rule check_types_log_all_children)
  show "\<forall>i<length (children e).
      count_list (fst (check_types_log tm p e)) (Invoked (p @ [i])) = 1"
  proof (intro allI impI)
    fix i assume i: "i < length (children e)"
    have "Invoked (p @ [i]) \<notin> set (own_steps tm p e)"
      using own_steps_performer[of "Invoked (p @ [i])" tm p e] by auto
    then have "count_list (own_steps tm p e) (Invoked (p @ [i])) = 0"
      by (simp add: count_list_0_iff)
    with i show "count_list (fst (check_types_log tm p e)) (Invoked (p @ [i])) = 1"
      unfolding l by (simp add: sub_logs_count)
  qed
next
  assume b: "j < length (children e) \<and> (\<forall>i<j. check_types tm (children e ! i) = Inr ())
        \<and> check_types tm (children e ! j) = Inl err"
  then have r: "check_types_log tm p e = (Invoked p # sub_logs tm p e (Suc j), Inl err)"
    by (intro check_types_log_first_failure) simp_all
  from r show "check_types tm e = Inl err"
    using check_types_log_outcome[of tm p e] by simp
  from r show "fst (check_types_log tm p e) = Invoked p # sub_logs tm p e (Suc j)"
    by simp
  show "\<forall>s\<in>set (fst (check_types_log tm p e)). performer s = p \<longrightarrow> s = Invoked p"
    unfolding r using sub_logs_not_self[of _ tm p e "Suc j"] by auto
  show "\<forall>i. count_list (fst (check_types_log tm p e)) (Invoked (p @ [i]))
      = (if i \<le> j then 1 else 0)"
    unfolding r by (auto simp: sub_logs_count)
next
  show "\<forall>s\<in>set (own_steps tm p e). performer s = p \<and> \<not> is_invocation s"
    using own_steps_performer by blast
next
  show "\<forall>s\<in>set (sub_logs tm p e n). performer s \<noteq> p"
    using sub_logs_not_self by blast
qed


text \<open>\<^verbatim>\<open>foo.pet(new Dog(), 1)\<close> checks the receiver, the two arguments, and then
  itself; in \<^verbatim>\<open>foo.pet(new Dog(1), 1)\<close> the first argument raises, the second argument is
  not checked and the call makes no check of its own.\<close>

theorem sub_expressions_checked_once_before_own_checks_witness:
  "check_types example_types foo = Inr () \<and> check_types example_types new_dog = Inr ()
   \<and> check_types example_types one = Inr ()
   \<and> fst (check_types_log example_types [] (JavaMethodCall foo ''pet'' [new_dog, one]))
       = [Invoked [], Invoked [0], Invoked [1], SubtypeComparison [1], SignatureLookup [1],
          ArgumentCount [1], ArgumentTypes [1] 0 0, Invoked [2],
          SignatureLookup [], ArgumentCount [], ArgumentTypes [] 2 2]
   \<and> count_list (fst (check_types_log example_types [] (JavaMethodCall foo ''pet'' [new_dog, one])))
        (Invoked [1]) = 1
   \<and> check_types example_types (JavaConstructorCall DogType [one])
       = Inl (JavaArgumentCountError
           ''Wrong number of arguments for Dog constructor: expected 0, got 1'')
   \<and> check_types example_types (JavaMethodCall foo ''pet'' [JavaConstructorCall DogType [one], one])
       = Inl (JavaArgumentCountError
           ''Wrong number of arguments for Dog constructor: expected 0, got 1'')
   \<and> fst (check_types_log example_types []
         (JavaMethodCall foo ''pet'' [JavaConstructorCall DogType [one], one]))
       = [Invoked [], Invoked [0], Invoked [1], Invoked [1, 0], SubtypeComparison [1],
          SignatureLookup [1], ArgumentCount [1]]"
proof -
  let ?good = "JavaMethodCall foo ''pet'' [new_dog, one]"
  let ?bad = "JavaMethodCall foo ''pet'' [JavaConstructorCall DogType [one], one]"
  let ?err = "JavaArgumentCountError
    ''Wrong number of arguments for Dog constructor: expected 0, got 1''"
  have facts: "check_types example_types foo = Inr ()"
    "check_types example_types new_dog = Inr ()"
    "check_types example_types one = Inr ()"
    "check_types example_types (JavaConstructorCall DogType [one]) = Inl ?err"
    by (simp_all add: example_simps)
  have good_children: "\<forall>c\<in>set (children ?good). check_types example_types c = Inr ()"
    using facts by simp
  note good = sub_expressions_checked_once_before_own_checks
    [of example_types "[]" ?good, THEN conjunct2, THEN conjunct1, THEN mp, OF good_children]
  have len: "1 < length (children ?good)" by simp
  have "count_list (fst (check_types_log example_types [] ?good)) (Invoked ([] @ [1])) = 1"
    by (rule good [THEN conjunct2, rule_format, OF len])
  then have once: "count_list (fst (check_types_log example_types [] ?good)) (Invoked [1]) = 1"
    by (simp only: append_Nil)
  have bad_children: "1 < length (children ?bad)
      \<and> (\<forall>i<1. check_types example_types (children ?bad ! i) = Inr ())
      \<and> check_types example_types (children ?bad ! 1) = Inl ?err"
    using facts by simp
  note bad = sub_expressions_checked_once_before_own_checks
    [of example_types "[]" ?bad 1 ?err, THEN conjunct2, THEN conjunct2, THEN conjunct1,
     THEN mp, OF bad_children]
  from bad have raised: "check_types example_types ?bad = Inl ?err"
    by (rule conjunct1)
  have logs: "fst (check_types_log example_types [] ?good)
       = [Invoked [], Invoked [0], Invoked [1], SubtypeComparison [1], SignatureLookup [1],
          ArgumentCount [1], ArgumentTypes [1] 0 0, Invoked [2],
          SignatureLookup [], ArgumentCount [], ArgumentTypes [] 2 2]"
    "fst (check_types_log example_types [] ?bad)
       = [Invoked [], Invoked [0], Invoked [1], Invoked [1, 0], SubtypeComparison [1],
          SignatureLookup [1], ArgumentCount [1]]"
    by (simp_all add: example_simps JavaVariable_check_types_log_def)
  show ?thesis
    using facts once raised logs by (intro conjI)
qed

subsection \<open>Indexing in \<^verbatim>\<open>check_argument_match\<close>\<close>

text \<open>\<^verbatim>\<open>IndexError\<close> comes from no other place than the indexing of the arguments.\<close>

lemma static_type_no_IndexError: "static_type tm e \<noteq> Inl IndexError"
  by (induction e) (auto simp: JavaVariable_static_type_def split: sum.splits option.splits)

lemma check_argument_match_from_in_bounds:
  "i + length expected \<le> length given
    \<Longrightarrow> check_argument_match_from tm i given expected \<noteq> Inl IndexError"
proof (induction expected arbitrary: i)
  case Nil
  then show ?case by simp
next
  case (Cons p ps)
  then have "check_argument_match_from tm (Suc i) given ps \<noteq> Inl IndexError" by simp
  with Cons.prems show ?case
    by (auto simp: static_type_no_IndexError split: sum.splits)
qed

lemma static_type_names_no_IndexError: "static_type_names tm es \<noteq> Inl IndexError"
  by (induction es) (auto simp: static_type_no_IndexError split: sum.splits)

lemma names_of_exprs_no_IndexError: "names_of_exprs tm es \<noteq> Inl IndexError"
  using static_type_names_no_IndexError[of tm es]
  by (auto simp: names_of_exprs_def split: sum.splits)

lemma check_each_no_IndexError:
  "(\<And>a. a \<in> set args \<Longrightarrow> chk a \<noteq> Inl IndexError) \<Longrightarrow> check_each chk args \<noteq> Inl IndexError"
  by (induction args) (auto split: sum.splits)

lemma argument_types_no_IndexError:
  assumes "length params = length args"
  shows "(case check_argument_match tm args params of
            Inl e \<Rightarrow> Inl e
          | Inr matches \<Rightarrow>
              if \<not> matches then
                (case names_of_exprs tm args of
                   Inl e \<Rightarrow> Inl e
                 | Inr given_names \<Rightarrow> Inl (JavaTypeMismatchError (f given_names)))
              else Inr ()) \<noteq> Inl IndexError"
  using check_argument_match_from_in_bounds[of 0 params args tm] assms
    names_of_exprs_no_IndexError[of tm args]
  by (auto simp: check_argument_match_def split: sum.splits)

text \<open>Every call of \<^verbatim>\<open>check_argument_match\<close> in a log has lists of equal length.\<close>

lemma own_steps_argument_lengths:
  "ArgumentTypes q n m \<in> set (own_steps tm p e) \<Longrightarrow> n = m"
  by (cases e) (auto split: sum.splits option.splits if_splits)

lemma check_types_log_argument_lengths:
  "ArgumentTypes q n m \<in> set (fst (check_types_log tm p e)) \<Longrightarrow> n = m"
proof (induction e arbitrary: p)
  case (Variable v)
  then show ?case by (simp add: JavaVariable_check_types_log_def)
next
  case (JavaLiteral val ty)
  then show ?case by simp
next
  case JavaNullLiteral
  then show ?case by simp
next
  case (JavaAssignment lhs rhs)
  obtain l r where lr: "check_types_log tm (p @ [1]) rhs = (l, r)"
    by (cases "check_types_log tm (p @ [1]) rhs")
  have sub: "ArgumentTypes q n m \<in> set l \<Longrightarrow> n = m"
    using JavaAssignment.IH[of "p @ [1]"] lr by simp
  from JavaAssignment.prems lr show ?case
    by (auto simp: JavaVariable_check_types_log_def JavaVariable_check_types_def
        JavaVariable_static_type_def dest: sub
        simp del: JavaAssignment_checks.simps split: sum.splits)
next
  case (JavaMethodCall receiver method_name args)
  obtain l0 r0 where lr0: "check_types_log tm (p @ [0]) receiver = (l0, r0)"
    by (cases "check_types_log tm (p @ [0]) receiver")
  obtain l1 r1 where lr1:
    "check_each_log (\<lambda>i. check_types_log tm (p @ [i])) 1 args = (l1, r1)"
    by (cases "check_each_log (\<lambda>i. check_types_log tm (p @ [i])) 1 args")
  have r: "ArgumentTypes q n m \<in> set l0 \<Longrightarrow> n = m"
    using JavaMethodCall.IH(1)[of "p @ [0]"] lr0 by simp
  have a: "ArgumentTypes q n m \<in> set l1 \<Longrightarrow> n = m"
  proof -
    assume "ArgumentTypes q n m \<in> set l1"
    then have "ArgumentTypes q n m
        \<in> set (fst (check_each_log (\<lambda>i. check_types_log tm (p @ [i])) 1 args))"
      using lr1 by simp
    from check_each_log_steps[OF this] obtain i where "i < length args"
      "ArgumentTypes q n m \<in> set (fst (check_types_log tm (p @ [1 + i]) (args ! i)))" by blast
    then show "n = m"
      using JavaMethodCall.IH(2)[of "args ! i" "p @ [1 + i]"] by simp
  qed
  from JavaMethodCall.prems lr0 lr1 show ?case
    by (auto dest: r a simp del: JavaMethodCall_checks.simps
        split: sum.splits option.splits if_splits)
next
  case (JavaConstructorCall instantiated_type args)
  obtain l1 r1 where lr1:
    "check_each_log (\<lambda>i. check_types_log tm (p @ [i])) 0 args = (l1, r1)"
    by (cases "check_each_log (\<lambda>i. check_types_log tm (p @ [i])) 0 args")
  have a: "ArgumentTypes q n m \<in> set l1 \<Longrightarrow> n = m"
  proof -
    assume "ArgumentTypes q n m \<in> set l1"
    then have "ArgumentTypes q n m
        \<in> set (fst (check_each_log (\<lambda>i. check_types_log tm (p @ [i])) 0 args))"
      using lr1 by simp
    from check_each_log_steps[OF this] obtain i where "i < length args"
      "ArgumentTypes q n m \<in> set (fst (check_types_log tm (p @ [0 + i]) (args ! i)))" by blast
    then show "n = m"
      using JavaConstructorCall.IH[of "args ! i" "p @ [0 + i]"] by simp
  qed
  from JavaConstructorCall.prems lr1 show ?case
    by (auto dest: a simp del: JavaConstructorCall_checks.simps
        split: sum.splits option.splits if_splits)
qed

text \<open>
  C9. On lists of equal length \<^verbatim>\<open>check_argument_match\<close> never indexes out of range. In
  the log of the check of any expression, at any position, every call of
  \<^verbatim>\<open>check_argument_match\<close> is given two lists of the same length (the log has the
  outcome of \<^verbatim>\<open>check_types\<close>): both callers compare the lengths first. So \<^verbatim>\<open>check_types\<close>
  never ends with \<^verbatim>\<open>IndexError\<close>, for any expression. Without the comparison the branch is
  there: one expected type and no argument raise it.
\<close>

theorem check_argument_match_index_in_bounds:
  "(length given_expr_list = length expected_type_list
      \<longrightarrow> check_argument_match tm given_expr_list expected_type_list \<noteq> Inl IndexError)
   \<and> (ArgumentTypes q n m \<in> set (fst (check_types_log tm p e)) \<longrightarrow> n = m)
   \<and> snd (check_types_log tm p e) = check_types tm e
   \<and> check_types tm e \<noteq> Inl IndexError
   \<and> check_argument_match tm [] [expected_type] = Inl IndexError"
proof (intro conjI impI)
  assume "ArgumentTypes q n m \<in> set (fst (check_types_log tm p e))"
  then show "n = m" by (rule check_types_log_argument_lengths)
next
  show "snd (check_types_log tm p e) = check_types tm e"
    by (rule check_types_log_outcome)
next
  assume "length given_expr_list = length expected_type_list"
  then show "check_argument_match tm given_expr_list expected_type_list \<noteq> Inl IndexError"
    using check_argument_match_from_in_bounds[of 0 expected_type_list given_expr_list tm]
    by (simp add: check_argument_match_def)
next
  show "check_types tm e \<noteq> Inl IndexError"
  proof (induction e)
    case (Variable v)
    then show ?case by (simp add: JavaVariable_check_types_def)
  next
    case (JavaLiteral val ty)
    then show ?case by simp
  next
    case JavaNullLiteral
    then show ?case by simp
  next
    case (JavaAssignment lhs rhs)
    then show ?case
      using static_type_no_IndexError[of tm rhs]
      by (auto simp: JavaVariable_check_types_def JavaVariable_static_type_def
          split: sum.splits)
  next
    case (JavaMethodCall receiver method_name args)
    have each: "check_each (check_types tm) args \<noteq> Inl IndexError"
      using JavaMethodCall(2) by (rule check_each_no_IndexError)
    show ?case
    proof (cases "check_types tm receiver")
      case (Inl e)
      with JavaMethodCall(1) show ?thesis by auto
    next
      case r: (Inr u)
      show ?thesis
      proof (cases "check_each (check_types tm) args")
        case (Inl e)
        with each r show ?thesis by auto
      next
        case a: (Inr u')
        show ?thesis
        proof (cases "static_type tm receiver")
          case (Inl e)
          with r a static_type_no_IndexError[of tm receiver] show ?thesis by auto
        next
          case t: (Inr receiver_type)
          show ?thesis
          proof (cases "method_named tm receiver_type method_name")
            case None
            with r a t show ?thesis by simp
          next
            case (Some m)
            show ?thesis
            proof (cases "length (parameter_types m) = length args")
              case False
              with r a t Some show ?thesis by simp
            next
              case True
              with r a t Some show ?thesis
                by (simp add: argument_types_no_IndexError)
            qed
          qed
        qed
      qed
    qed
  next
    case (JavaConstructorCall instantiated_type args)
    have each: "check_each (check_types tm) args \<noteq> Inl IndexError"
      using JavaConstructorCall by (rule check_each_no_IndexError)
    show ?case
    proof (cases "check_each (check_types tm) args")
      case (Inl e)
      with each show ?thesis by auto
    next
      case a: (Inr u)
      show ?thesis
      proof (cases "constructor tm instantiated_type")
        case None
        with a show ?thesis by simp
      next
        case (Some c)
        show ?thesis
        proof (cases "length (constructor_parameter_types c) = length args")
          case False
          with a Some show ?thesis by simp
        next
          case True
          with a Some show ?thesis
            by (simp add: argument_types_no_IndexError)
        qed
      qed
    qed
  qed
next
  show "check_argument_match tm [] [expected_type] = Inl IndexError"
    by (simp add: check_argument_match_def)
qed


text \<open>\<^verbatim>\<open>foo.bar(1, true)\<close> reaches \<^verbatim>\<open>check_argument_match\<close>, with two arguments and two
  parameter types; \<^verbatim>\<open>foo.bar(1)\<close> stops at the count and never calls it.\<close>

theorem check_argument_match_index_in_bounds_witness:
  "length [one, true] = length [IntType, IntType]
   \<and> check_argument_match example_types [one, true] [IntType, IntType] \<noteq> Inl IndexError
   \<and> check_argument_match example_types [one, true] [IntType, IntType] = Inr False
   \<and> fst (check_types_log example_types [] (JavaMethodCall foo ''bar'' [one, true]))
       = [Invoked [], Invoked [0], Invoked [1], Invoked [2],
          SignatureLookup [], ArgumentCount [], ArgumentTypes [] 2 2]
   \<and> fst (check_types_log example_types [] (JavaMethodCall foo ''bar'' [one]))
       = [Invoked [], Invoked [0], Invoked [1], SignatureLookup [], ArgumentCount []]
   \<and> check_types example_types (JavaMethodCall foo ''bar'' [one]) \<noteq> Inl IndexError
   \<and> check_argument_match example_types [one] [IntType, IntType] = Inl IndexError"
proof -
  note t = check_argument_match_index_in_bounds [where tm = example_types
    and given_expr_list = "[one, true]" and expected_type_list = "[IntType, IntType]"
    and e = "JavaMethodCall foo ''bar'' [one]"]
  have l: "length [one, true] = length [IntType, IntType]" by simp
  have a: "check_argument_match example_types [one, true] [IntType, IntType] \<noteq> Inl IndexError"
    by (rule t [THEN conjunct1, THEN mp, OF l])
  have b: "check_types example_types (JavaMethodCall foo ''bar'' [one]) \<noteq> Inl IndexError"
    by (rule t [THEN conjunct2, THEN conjunct2, THEN conjunct2, THEN conjunct1])
  have c: "check_argument_match example_types [one, true] [IntType, IntType] = Inr False"
    "check_argument_match example_types [one] [IntType, IntType] = Inl IndexError"
    by (simp_all add: example_simps)
  have logs: "fst (check_types_log example_types [] (JavaMethodCall foo ''bar'' [one, true]))
       = [Invoked [], Invoked [0], Invoked [1], Invoked [2],
          SignatureLookup [], ArgumentCount [], ArgumentTypes [] 2 2]"
    "fst (check_types_log example_types [] (JavaMethodCall foo ''bar'' [one]))
       = [Invoked [], Invoked [0], Invoked [1], SignatureLookup [], ArgumentCount []]"
    by (simp_all add: example_simps JavaVariable_check_types_log_def)
  show ?thesis using l a b c logs by (intro conjI)
qed

end
